theory Spec2Isabelle
  imports Complex_Main
begin

section \<open>Data model\<close>

text \<open>
  Element dtypes of the numeric leaves. \<open>Float0\<close> is the zero-sized "no tangent" dtype.
  Scalars are modelled as exact reals; a complex array keeps only its dtype tag.
\<close>

datatype dtype = Float32 | Complex64 | Int32 | Bool | Float0

datatype jarray = Array dtype "nat list" "real list"

fun dtype_of :: "jarray \<Rightarrow> dtype" where
  "dtype_of (Array dt sh xs) = dt"

fun np_shape :: "jarray \<Rightarrow> nat list" where
  "np_shape (Array dt sh xs) = sh"

fun arr_data :: "jarray \<Rightarrow> real list" where
  "arr_data (Array dt sh xs) = xs"

definition np_size :: "jarray \<Rightarrow> nat" where
  "np_size a = prod_list (np_shape a)"

text \<open>
  Modelled from the spec: the structured-value codec (\<open>tree_flatten\<close>, \<open>tree_unflatten\<close>,
  \<open>tree_map\<close>) is not part of the repository. A pytree is a nesting of tuples and lists
  with arrays (or tracers) at the leaves; its structural descriptor (treedef) is the same
  tree with the leaves erased; flattening lists the leaves from left to right.
\<close>

datatype 'a pytree = Leaf 'a | PTuple "'a pytree list" | PList "'a pytree list"

type_synonym treedef = "unit pytree"

fun tree_leaves :: "'a pytree \<Rightarrow> 'a list" where
  "tree_leaves (Leaf x) = [x]"
| "tree_leaves (PTuple ts) = concat (map tree_leaves ts)"
| "tree_leaves (PList ts) = concat (map tree_leaves ts)"

definition tree_structure :: "'a pytree \<Rightarrow> treedef" where
  "tree_structure t = map_pytree (\<lambda>_. ()) t"

definition tree_flatten :: "'a pytree \<Rightarrow> 'a list \<times> treedef" where
  "tree_flatten t = (tree_leaves t, tree_structure t)"

fun unflatten_aux :: "treedef \<Rightarrow> 'a list \<Rightarrow> ('a pytree \<times> 'a list) option"
  and unflatten_seq :: "treedef list \<Rightarrow> 'a list \<Rightarrow> ('a pytree list \<times> 'a list) option"
where
  "unflatten_aux (Leaf u) xs = (case xs of [] \<Rightarrow> None | x # r \<Rightarrow> Some (Leaf x, r))"
| "unflatten_aux (PTuple ts) xs =
     (case unflatten_seq ts xs of None \<Rightarrow> None | Some (cs, r) \<Rightarrow> Some (PTuple cs, r))"
| "unflatten_aux (PList ts) xs =
     (case unflatten_seq ts xs of None \<Rightarrow> None | Some (cs, r) \<Rightarrow> Some (PList cs, r))"
| "unflatten_seq [] xs = Some ([], xs)"
| "unflatten_seq (t # ts) xs =
     (case unflatten_aux t xs of
        None \<Rightarrow> None
      | Some (c, r) \<Rightarrow>
          (case unflatten_seq ts r of None \<Rightarrow> None | Some (cs, r') \<Rightarrow> Some (c # cs, r')))"

text \<open>\<open>tree_unflatten\<close> raises when the number of leaves does not fit the treedef: \<open>None\<close>.\<close>

definition tree_unflatten :: "treedef \<Rightarrow> 'a list \<Rightarrow> 'a pytree option" where
  "tree_unflatten td xs =
     (case unflatten_aux td xs of Some (t, []) \<Rightarrow> Some t | _ \<Rightarrow> None)"

fun tree_bind :: "'a pytree \<Rightarrow> ('a \<Rightarrow> 'b pytree) \<Rightarrow> 'b pytree" where
  "tree_bind (Leaf x) f = f x"
| "tree_bind (PTuple ts) f = PTuple (map (\<lambda>t. tree_bind t f) ts)"
| "tree_bind (PList ts) f = PList (map (\<lambda>t. tree_bind t f) ts)"

section \<open>Errors and tracers\<close>

text \<open>
  The failures of a call, as values. The source raises \<open>TypeError\<close> for the first two
  checks of \<open>_jvp\<close> and for a wrong tangent dtype, and \<open>ValueError\<close> for a wrong shape;
  they are named here by kind.
\<close>

datatype error =
    ArgumentStructureError | DtypeMismatchError | ShapeMismatchError
  | InputDtypeError | OutputDtypeError | NotCallableError
  | IndexError | FunctionRaised | AuxPairError | VmapAxisError
  | SafeZipError | TreeUnflattenError

text \<open>
  A tangent leaf is a concrete array or, under \<open>vmap\<close>, a batch tracer: the slices of
  the mapped axis together with the dtype and shape of one slice.
\<close>

datatype tval = Concrete jarray | BatchTracer "jarray list" dtype "nat list"

fun tv_dtype :: "tval \<Rightarrow> dtype" where
  "tv_dtype (Concrete a) = dtype_of a"
| "tv_dtype (BatchTracer sl dt sh) = dt"

fun tv_shape :: "tval \<Rightarrow> nat list" where
  "tv_shape (Concrete a) = np_shape a"
| "tv_shape (BatchTracer sl dt sh) = sh"

text \<open>
  Modelled from the spec: \<open>core.primal_dtype_to_tangent_dtype\<close> is not part of the
  repository. Inexact dtypes map to themselves, integer and boolean dtypes to the
  no-tangent dtype.
\<close>

fun primal_dtype_to_tangent_dtype :: "dtype \<Rightarrow> dtype" where
  "primal_dtype_to_tangent_dtype Float32 = Float32"
| "primal_dtype_to_tangent_dtype Complex64 = Complex64"
| "primal_dtype_to_tangent_dtype Int32 = Float0"
| "primal_dtype_to_tangent_dtype Bool = Float0"
| "primal_dtype_to_tangent_dtype Float0 = Float0"

section \<open>Functions as the differentiable runtime sees them\<close>

text \<open>
  Modelled from the spec: the runtime that evaluates a user function and propagates a
  tangent through it is not part of the repository. A function is given by what a direct
  call returns (\<open>None\<close> when it raises) and by its linearisation: the output tangent for
  the arguments and their tangents, \<open>None\<close> marking an argument that is held fixed.
\<close>

record wrapped_fun =
  wf_call :: "jarray pytree list \<Rightarrow> jarray pytree option"
  wf_jvp :: "jarray pytree list \<Rightarrow> jarray pytree option list \<Rightarrow> jarray pytree"

fun is_tuple_or_list :: "'a pytree \<Rightarrow> bool" where
  "is_tuple_or_list (Leaf x) = False"
| "is_tuple_or_list (PTuple ts) = True"
| "is_tuple_or_list (PList ts) = True"

fun children :: "'a pytree \<Rightarrow> 'a pytree list" where
  "children (Leaf x) = []"
| "children (PTuple ts) = ts"
| "children (PList ts) = ts"

text \<open>
  Modelled from the spec: \<open>flatten_fun_nokwargs\<close> is not part of the repository. It
  gives the function on flat leaf lists, which rebuilds the arguments with the input
  treedef, calls the function and flattens what it returns.
\<close>

definition flat_call :: "wrapped_fun \<Rightarrow> treedef \<Rightarrow> jarray list \<Rightarrow> error + jarray pytree" where
  "flat_call f in_tree args_flat =
     (case tree_unflatten in_tree args_flat of
        None \<Rightarrow> Inl TreeUnflattenError
      | Some py_args \<Rightarrow>
          (case wf_call f (children py_args) of
             None \<Rightarrow> Inl FunctionRaised
           | Some ans \<Rightarrow> Inr ans))"

definition flat_tangent :: "wrapped_fun \<Rightarrow> treedef \<Rightarrow> jarray list \<Rightarrow> jarray list \<Rightarrow> jarray pytree" where
  "flat_tangent f in_tree args_flat tans_flat =
     (case (tree_unflatten in_tree args_flat, tree_unflatten in_tree tans_flat) of
        (Some py_args, Some py_tans) \<Rightarrow>
          wf_jvp f (children py_args) (map Some (children py_tans))
      | _ \<Rightarrow> PTuple [])"

definition flatten_fun_nokwargs ::
  "wrapped_fun \<Rightarrow> treedef \<Rightarrow>
     (jarray list \<Rightarrow> error + jarray list \<times> treedef) \<times> (jarray list \<Rightarrow> jarray list \<Rightarrow> jarray list)"
where
  "flatten_fun_nokwargs f in_tree =
     (\<lambda>args_flat. case flat_call f in_tree args_flat of
                     Inl e \<Rightarrow> Inl e
                   | Inr ans \<Rightarrow> Inr (tree_flatten ans),
      \<lambda>args_flat tans_flat. tree_leaves (flat_tangent f in_tree args_flat tans_flat))"

text \<open>
  Modelled from the spec: \<open>flatten_fun_nokwargs2\<close> is not part of the repository. The
  function must return a pair (tuple or list of two); only the first component carries a
  tangent, the second is the auxiliary output.
\<close>

fun as_pair :: "'a pytree \<Rightarrow> ('a pytree \<times> 'a pytree) option" where
  "as_pair (PTuple [a, b]) = Some (a, b)"
| "as_pair (PList [a, b]) = Some (a, b)"
| "as_pair _ = None"

definition flatten_fun_nokwargs2 ::
  "wrapped_fun \<Rightarrow> treedef \<Rightarrow>
     (jarray list \<Rightarrow> error + (jarray list \<times> jarray list) \<times> (treedef \<times> treedef))
     \<times> (jarray list \<Rightarrow> jarray list \<Rightarrow> jarray list)"
where
  "flatten_fun_nokwargs2 f in_tree =
     (\<lambda>args_flat. case flat_call f in_tree args_flat of
                     Inl e \<Rightarrow> Inl e
                   | Inr pair \<Rightarrow>
                       (case as_pair pair of
                          None \<Rightarrow> Inl AuxPairError
                        | Some (ans, aux) \<Rightarrow>
                            Inr ((tree_leaves ans, tree_leaves aux),
                                 (tree_structure ans, tree_structure aux))),
      \<lambda>args_flat tans_flat.
         (case as_pair (flat_tangent f in_tree args_flat tans_flat) of
            None \<Rightarrow> []
          | Some (ans_dot, aux_dot) \<Rightarrow> tree_leaves ans_dot))"

text \<open>
  Modelled from the spec: \<open>ad.jvp\<close>, the runtime's tangent propagation, is not part of
  the repository. It evaluates the flat function once on the primals; the output tangents
  are the linearisation applied to the tangents. When the tangents are batch tracers the
  linearisation is applied to every slice, and each output tangent is a batch tracer
  again, with the dtype and shape its primal output gives it.
\<close>

fun batch_size :: "tval list \<Rightarrow> nat option" where
  "batch_size [] = None"
| "batch_size (Concrete a # ts) = batch_size ts"
| "batch_size (BatchTracer sl dt sh # ts) = Some (length sl)"

fun slice :: "nat \<Rightarrow> tval \<Rightarrow> jarray" where
  "slice i (Concrete a) = a"
| "slice i (BatchTracer sl dt sh) = sl ! i"

definition out_tangents_of ::
  "(jarray list \<Rightarrow> jarray list \<Rightarrow> jarray list) \<Rightarrow> jarray list \<Rightarrow> tval list \<Rightarrow> jarray list \<Rightarrow> tval list"
where
  "out_tangents_of tg ps_flat ts_flat out_primals =
     (case batch_size ts_flat of
        None \<Rightarrow> map Concrete (tg ps_flat (map (slice 0) ts_flat))
      | Some d \<Rightarrow>
          (let cols = map (\<lambda>i. tg ps_flat (map (slice i) ts_flat)) [0..<d]
           in map (\<lambda>k. BatchTracer (map (\<lambda>c. c ! k) cols)
                          (primal_dtype_to_tangent_dtype (dtype_of (out_primals ! k)))
                          (np_shape (out_primals ! k)))
                  [0..<length out_primals]))"

definition ad_jvp ::
  "(jarray list \<Rightarrow> error + jarray list \<times> treedef) \<times> (jarray list \<Rightarrow> jarray list \<Rightarrow> jarray list) \<Rightarrow>
     jarray list \<Rightarrow> tval list \<Rightarrow> error + (jarray list \<times> tval list) \<times> treedef"
where
  "ad_jvp flat_fun ps_flat ts_flat =
     (case fst flat_fun ps_flat of
        Inl e \<Rightarrow> Inl e
      | Inr (out_primals, out_tree) \<Rightarrow>
          Inr ((out_primals, out_tangents_of (snd flat_fun) ps_flat ts_flat out_primals),
               out_tree))"

definition ad_jvp_aux ::
  "(jarray list \<Rightarrow> error + (jarray list \<times> jarray list) \<times> (treedef \<times> treedef))
     \<times> (jarray list \<Rightarrow> jarray list \<Rightarrow> jarray list) \<Rightarrow>
     jarray list \<Rightarrow> tval list \<Rightarrow>
     error + ((jarray list \<times> tval list) \<times> jarray list) \<times> (treedef \<times> treedef)"
where
  "ad_jvp_aux flat_fun ps_flat ts_flat =
     (case fst flat_fun ps_flat of
        Inl e \<Rightarrow> Inl e
      | Inr ((out_primals, aux), out_aux_trees) \<Rightarrow>
          Inr (((out_primals, out_tangents_of (snd flat_fun) ps_flat ts_flat out_primals), aux),
               out_aux_trees))"

section \<open>The tangent-propagation primitive \<open>_jvp\<close>\<close>

text \<open>
  What \<open>_jvp\<close> returns: \<open>(y, y_dot)\<close>, or \<open>((y, y_dot), aux)\<close> with \<open>has_aux\<close>. The same
  type, with the jacobian in place of the tangent, is what \<open>jacfun\<close> returns:
  \<open>(y, jac)\<close> or \<open>((y, aux), jac)\<close>.
\<close>

datatype ('y, 't) fwd_result = NoAux 'y 't | WithAux 'y 't 'y

text \<open>The loop over \<open>safe_zip(ps_flat, ts_flat)\<close>: per pair the dtype check, then the shape check.\<close>

fun check_pairs :: "(jarray \<times> tval) list \<Rightarrow> error option" where
  "check_pairs [] = None"
| "check_pairs ((p, t) # pts) =
     (if primal_dtype_to_tangent_dtype (dtype_of p) \<noteq> tv_dtype t then Some DtypeMismatchError
      else if np_shape p \<noteq> tv_shape t then Some ShapeMismatchError
      else check_pairs pts)"

definition unflatten_or_fail :: "treedef \<Rightarrow> 'a list \<Rightarrow> error + 'a pytree" where
  "unflatten_or_fail td xs =
     (case tree_unflatten td xs of None \<Rightarrow> Inl TreeUnflattenError | Some t \<Rightarrow> Inr t)"

definition jvp ::
  "wrapped_fun \<Rightarrow> jarray pytree \<Rightarrow> tval pytree \<Rightarrow> bool \<Rightarrow>
     error + (jarray pytree, tval pytree) fwd_result"
where
  "jvp fn primals tangents has_aux =
     (if \<not> is_tuple_or_list primals \<or> \<not> is_tuple_or_list tangents
      then Inl ArgumentStructureError
      else
        let (ps_flat, tree_def) = tree_flatten primals;
            (ts_flat, tree_def_2) = tree_flatten tangents
        in if tree_def \<noteq> tree_def_2 then Inl ArgumentStructureError
           else if length ps_flat \<noteq> length ts_flat then Inl SafeZipError
           else case check_pairs (zip ps_flat ts_flat) of
                  Some e \<Rightarrow> Inl e
                | None \<Rightarrow>
                    if has_aux then
                      (case ad_jvp_aux (flatten_fun_nokwargs2 fn tree_def) ps_flat ts_flat of
                         Inl e \<Rightarrow> Inl e
                       | Inr (((out_primals, out_tangents), aux), (out_tree, aux_tree)) \<Rightarrow>
                           (case (unflatten_or_fail out_tree out_primals,
                                  unflatten_or_fail out_tree out_tangents,
                                  unflatten_or_fail aux_tree aux) of
                              (Inr y, Inr y_dot, Inr a) \<Rightarrow> Inr (WithAux y y_dot a)
                            | _ \<Rightarrow> Inl TreeUnflattenError))
                    else
                      (case ad_jvp (flatten_fun_nokwargs fn tree_def) ps_flat ts_flat of
                         Inl e \<Rightarrow> Inl e
                       | Inr ((out_primals, out_tangents), out_tree) \<Rightarrow>
                           (case (unflatten_or_fail out_tree out_primals,
                                  unflatten_or_fail out_tree out_tangents) of
                              (Inr y, Inr y_dot) \<Rightarrow> Inr (NoAux y y_dot)
                            | _ \<Rightarrow> Inl TreeUnflattenError)))"

section \<open>Basis generator, batched map and reassembler\<close>

text \<open>
  Modelled from the spec: \<open>_std_basis\<close> is not part of the repository. \<open>D\<close> is the sum of
  the element counts of the leaves, a leaf of the no-tangent dtype counting 0; leaves are
  visited in flattened order, the offsets within a leaf in row-major order. The basis is
  returned as one pytree shaped like the input whose leaves carry the \<open>D\<close> directions
  along a leading axis: direction \<open>i\<close> has its single 1 at flat offset \<open>i\<close>.
\<close>

definition dof :: "jarray \<Rightarrow> nat" where
  "dof a = (if dtype_of a = Float0 then 0 else np_size a)"

definition basis_dim :: "jarray pytree \<Rightarrow> nat" where
  "basis_dim t = sum_list (map dof (tree_leaves t))"

definition eye_block :: "nat \<Rightarrow> nat \<Rightarrow> jarray \<Rightarrow> jarray" where
  "eye_block d off a =
     Array (dtype_of a) (d # np_shape a)
       (concat (map (\<lambda>i. map (\<lambda>j. if dtype_of a \<noteq> Float0 \<and> i = off + j then 1 else 0)
                              [0..<np_size a])
                    [0..<d]))"

fun basis_leaves :: "nat \<Rightarrow> nat \<Rightarrow> jarray list \<Rightarrow> jarray list" where
  "basis_leaves d off [] = []"
| "basis_leaves d off (a # as) = eye_block d off a # basis_leaves d (off + dof a) as"

text \<open>
  Rebuilding a tree from as many leaves as its own treedef holds cannot fail (lemma
  \<open>tree_unflatten_structure\<close> below); the other branch is never taken.
\<close>

definition rebuild :: "'a pytree \<Rightarrow> 'b list \<Rightarrow> 'b pytree" where
  "rebuild example xs =
     (case tree_unflatten (tree_structure example) xs of Some t \<Rightarrow> t | None \<Rightarrow> PTuple [])"

definition std_basis :: "jarray pytree \<Rightarrow> jarray pytree" where
  "std_basis t = rebuild t (basis_leaves (basis_dim t) 0 (tree_leaves t))"

text \<open>
  Modelled from the spec: \<open>vmap\<close> is not part of the repository. The function is run
  once, on batch tracers standing for the slices of the leading axis of every input leaf;
  with the \<open>out_axes\<close> of the source the value (and the auxiliary output) is shared and
  comes back unbatched, and the batch axis of every tangent leaf becomes its last axis.
  It fails when no leaf gives the size of the mapped axis.
\<close>

fun leading :: "jarray \<Rightarrow> nat option" where
  "leading (Array dt [] xs) = None"
| "leading (Array dt (d # sh) xs) = Some d"

fun axis_size :: "jarray list \<Rightarrow> nat option" where
  "axis_size [] = None"
| "axis_size (a # as) =
     (case leading a of
        None \<Rightarrow> None
      | Some d \<Rightarrow> if list_all (\<lambda>b. leading b = Some d) as then Some d else None)"

fun unstack :: "jarray \<Rightarrow> jarray list" where
  "unstack (Array dt [] xs) = []"
| "unstack (Array dt (d # sh) xs) =
     map (\<lambda>i. Array dt sh (take (prod_list sh) (drop (i * prod_list sh) xs))) [0..<d]"

definition to_tracer :: "jarray \<Rightarrow> tval" where
  "to_tracer a = BatchTracer (unstack a) (dtype_of a) (tl (np_shape a))"

fun move_to_last :: "nat \<Rightarrow> tval \<Rightarrow> jarray" where
  "move_to_last d (BatchTracer sl dt sh) =
     Array dt (sh @ [d]) (concat (map (\<lambda>j. map (\<lambda>s. arr_data s ! j) sl) [0..<prod_list sh]))"
| "move_to_last d (Concrete a) =
     Array (dtype_of a) (np_shape a @ [d]) (concat (map (replicate d) (arr_data a)))"

definition vmap ::
  "(tval pytree \<Rightarrow> error + (jarray pytree, tval pytree) fwd_result) \<Rightarrow> jarray pytree \<Rightarrow>
     error + (jarray pytree, jarray pytree) fwd_result"
where
  "vmap g batched =
     (case axis_size (tree_leaves batched) of
        None \<Rightarrow> Inl VmapAxisError
      | Some d \<Rightarrow>
          (case g (map_pytree to_tracer batched) of
             Inl e \<Rightarrow> Inl e
           | Inr (NoAux y y_dot) \<Rightarrow> Inr (NoAux y (map_pytree (move_to_last d) y_dot))
           | Inr (WithAux y y_dot aux) \<Rightarrow>
               Inr (WithAux y (map_pytree (move_to_last d) y_dot) aux)))"

text \<open>
  Modelled from the spec: \<open>_unravel_array_into_pytree\<close> is not part of the repository.
  With axis \<open>-1\<close>: the trailing axis of the array is split into one sub-range per leaf of
  the example, in flattened order, each as long as the leaf has elements, and each part is
  reshaped to the leading axes followed by the leaf's shape.
\<close>

definition split_part :: "nat \<Rightarrow> nat \<Rightarrow> nat \<Rightarrow> nat \<Rightarrow> real list \<Rightarrow> real list" where
  "split_part r d off n xs = concat (map (\<lambda>i. take n (drop (i * d + off) xs)) [0..<r])"

fun unravel_parts :: "dtype \<Rightarrow> nat list \<Rightarrow> nat \<Rightarrow> real list \<Rightarrow> nat \<Rightarrow> jarray list \<Rightarrow> jarray list" where
  "unravel_parts dt pre d xs off [] = []"
| "unravel_parts dt pre d xs off (l # ls) =
     Array dt (pre @ np_shape l) (split_part (prod_list pre) d off (np_size l) xs)
       # unravel_parts dt pre d xs (off + np_size l) ls"

definition unravel_array_into_pytree :: "jarray pytree \<Rightarrow> jarray \<Rightarrow> jarray pytree" where
  "unravel_array_into_pytree example arr =
     rebuild example
       (unravel_parts (dtype_of arr) (butlast (np_shape arr)) (last (np_shape arr))
          (arr_data arr) 0 (tree_leaves example))"

section \<open>The public entry point \<open>value_and_jacfwd\<close>\<close>

text \<open>
  A Python function as the runtime sees it, with its keyword arguments: what a direct
  call returns and its linearisation. The object handed to \<open>value_and_jacfwd\<close> is such a
  function or something that cannot be called.
\<close>

type_synonym kwargs = "(string \<times> jarray pytree) list"

record pyfun =
  py_call :: "jarray pytree list \<Rightarrow> kwargs \<Rightarrow> jarray pytree option"
  py_jvp :: "jarray pytree list \<Rightarrow> kwargs \<Rightarrow> jarray pytree option list \<Rightarrow> jarray pytree"

datatype pyobj = Function pyfun | NonCallable

datatype argnums = Index nat | Indices "nat list"

text \<open>What \<open>jacfun\<close> returns: \<open>(y, jac)\<close>, or \<open>((y, aux), jac)\<close> with \<open>has_aux\<close>.\<close>

datatype jac_result =
    ValueJac "jarray pytree" "jarray pytree"
  | ValueAuxJac "jarray pytree" "jarray pytree" "jarray pytree"

text \<open>
  Modelled from the spec: \<open>lu.wrap_init\<close> is not part of the repository.
  \<open>lu.wrap_init(fun, kwargs)\<close> is the function with the keyword arguments closed over.
\<close>

definition wrap_init :: "pyfun \<Rightarrow> kwargs \<Rightarrow> wrapped_fun" where
  "wrap_init fn kw =
     \<lparr>wf_call = (\<lambda>args. py_call fn args kw), wf_jvp = (\<lambda>args tans. py_jvp fn args kw tans)\<rparr>"

text \<open>
  Modelled from the spec: \<open>argnums_partial\<close> is not part of the repository. The call
  arguments are split into the differentiated ones, returned as a tuple, and the fixed
  ones, which the partial function closes over; an index past the arguments fails.
\<close>

fun ensure_index_tuple :: "argnums \<Rightarrow> nat list" where
  "ensure_index_tuple (Index i) = [i]"
| "ensure_index_tuple (Indices js) = js"

fun place :: "(nat \<times> 'a) list \<Rightarrow> 'a list \<Rightarrow> 'a list" where
  "place [] args = args"
| "place ((i, a) # ias) args = place ias (args[i := a])"

definition argnums_partial ::
  "wrapped_fun \<Rightarrow> argnums \<Rightarrow> jarray pytree list \<Rightarrow> error + wrapped_fun \<times> jarray pytree"
where
  "argnums_partial f dyn_argnums args =
     (let js = ensure_index_tuple dyn_argnums in
      if \<not> list_all (\<lambda>i. i < length args) js then Inl IndexError
      else Inr (\<lparr>wf_call = (\<lambda>dyn. wf_call f (place (zip js dyn) args)),
                 wf_jvp = (\<lambda>dyn tans. wf_jvp f (place (zip js dyn) args)
                                          (place (zip js tans) (map (\<lambda>_. None) args)))\<rparr>,
                PTuple (map (\<lambda>i. args ! i) js)))"

text \<open>
  Modelled from the spec: \<open>_check_input_dtype_jacfwd\<close> and \<open>_check_output_dtype_jacfwd\<close>
  are not part of the repository. An input leaf passes when \<open>holomorphic\<close> is set or its
  dtype is inexact (floating or complex); an output leaf passes when \<open>holomorphic\<close> is set
  or its dtype is inexact and real.
\<close>

definition check_input_dtype_jacfwd :: "bool \<Rightarrow> jarray \<Rightarrow> bool" where
  "check_input_dtype_jacfwd holomorphic x \<longleftrightarrow>
     holomorphic \<or> dtype_of x = Float32 \<or> dtype_of x = Complex64"

definition check_output_dtype_jacfwd :: "bool \<Rightarrow> jarray \<Rightarrow> bool" where
  "check_output_dtype_jacfwd holomorphic x \<longleftrightarrow> holomorphic \<or> dtype_of x = Float32"

fun value_of :: "(jarray pytree, 't) fwd_result \<Rightarrow> jarray pytree" where
  "value_of (NoAux y j) = y"
| "value_of (WithAux y j aux) = y"

fun example_args_of :: "argnums \<Rightarrow> jarray pytree \<Rightarrow> jarray pytree" where
  "example_args_of (Index i) dyn_args = hd (children dyn_args)"
| "example_args_of (Indices js) dyn_args = dyn_args"

definition jacfun ::
  "pyfun \<Rightarrow> argnums \<Rightarrow> bool \<Rightarrow> bool \<Rightarrow> jarray pytree list \<Rightarrow> kwargs \<Rightarrow> error + jac_result"
where
  "jacfun fn argnums holomorphic has_aux args kw =
     (let f = wrap_init fn kw in
      case argnums_partial f argnums args of
        Inl e \<Rightarrow> Inl e
      | Inr (f_partial, dyn_args) \<Rightarrow>
          if \<not> list_all (check_input_dtype_jacfwd holomorphic) (tree_leaves dyn_args)
          then Inl InputDtypeError
          else
            (case vmap (\<lambda>tangents. jvp f_partial dyn_args tangents has_aux) (std_basis dyn_args) of
               Inl e \<Rightarrow> Inl e
             | Inr r \<Rightarrow>
                 if \<not> list_all (check_output_dtype_jacfwd holomorphic) (tree_leaves (value_of r))
                 then Inl OutputDtypeError
                 else
                   (let example_args = example_args_of argnums dyn_args in
                    case r of
                      WithAux y jac aux \<Rightarrow>
                        Inr (ValueAuxJac y aux
                               (tree_bind jac (unravel_array_into_pytree example_args)))
                    | NoAux y jac \<Rightarrow>
                        Inr (ValueJac y
                               (tree_bind jac (unravel_array_into_pytree example_args))))))"

text \<open>
  Modelled from the spec: \<open>_check_callable\<close> is not part of the repository; it fails when
  the object cannot be invoked. \<open>_ensure_index\<close> leaves an index or a sequence of indices
  as it is.
\<close>

definition value_and_jacfwd ::
  "pyobj \<Rightarrow> argnums \<Rightarrow> bool \<Rightarrow> bool \<Rightarrow>
     error + (jarray pytree list \<Rightarrow> kwargs \<Rightarrow> error + jac_result)"
where
  "value_and_jacfwd fn argnums holomorphic has_aux =
     (case fn of
        NonCallable \<Rightarrow> Inl NotCallableError
      | Function f \<Rightarrow> Inr (jacfun f argnums holomorphic has_aux))"

section \<open>The functions of the module's examples\<close>

text \<open>
  The two functions of the module docstring, with the tangent rules of their primitives:
  squaring has \<open>(x, t) \<mapsto> (x\<^sup>2, 2 x t)\<close>, summation adds the tangents up.
  \<open>g(x) = (x ** 2).sum()\<close> and \<open>f(x) = ((x ** 2).sum(), x.sum())\<close>.
\<close>

definition square_jvp :: "real \<times> real \<Rightarrow> real \<times> real" where
  "square_jvp xt = ((fst xt)\<^sup>2, 2 * fst xt * snd xt)"

definition sum_jvp :: "(real \<times> real) list \<Rightarrow> real \<times> real" where
  "sum_jvp xts = (sum_list (map fst xts), sum_list (map snd xts))"

definition g_fun :: pyfun where
  "g_fun =
     \<lparr>py_call = (\<lambda>args kw. case args of
                    [Leaf (Array dt sh xs)] \<Rightarrow>
                      Some (Leaf (Array dt [] [sum_list (map (\<lambda>x. x\<^sup>2) xs)]))
                  | _ \<Rightarrow> None),
      py_jvp = (\<lambda>args kw tans. case (args, tans) of
                    ([Leaf (Array dt sh xs)], [Some (Leaf (Array dt' sh' ts))]) \<Rightarrow>
                      Leaf (Array dt [] [snd (sum_jvp (map square_jvp (zip xs ts)))])
                  | _ \<Rightarrow> PTuple [])\<rparr>"

definition f_fun :: pyfun where
  "f_fun =
     \<lparr>py_call = (\<lambda>args kw. case args of
                    [Leaf (Array dt sh xs)] \<Rightarrow>
                      Some (PTuple [Leaf (Array dt [] [sum_list (map (\<lambda>x. x\<^sup>2) xs)]),
                                    Leaf (Array dt [] [sum_list xs])])
                  | _ \<Rightarrow> None),
      py_jvp = (\<lambda>args kw tans. case (args, tans) of
                    ([Leaf (Array dt sh xs)], [Some (Leaf (Array dt' sh' ts))]) \<Rightarrow>
                      PTuple [Leaf (Array dt [] [snd (sum_jvp (map square_jvp (zip xs ts)))]),
                              Leaf (Array dt [] [snd (sum_jvp (zip xs ts))])]
                  | _ \<Rightarrow> PTuple [])\<rparr>"

definition x012 :: jarray where
  "x012 = Array Float32 [3] [0, 1, 2]"

section \<open>Notions the claims are stated with\<close>

text \<open>A primal leaf and its tangent leaf fit: the tangent has the derived dtype and the same shape.\<close>

definition pair_ok :: "jarray \<Rightarrow> tval \<Rightarrow> bool" where
  "pair_ok p t \<longleftrightarrow>
     primal_dtype_to_tangent_dtype (dtype_of p) = tv_dtype t \<and> np_shape p = tv_shape t"

text \<open>The function that ignores the keyword arguments it is called with and uses \<open>kw\<close>.\<close>

definition close_over_kwargs :: "pyfun \<Rightarrow> kwargs \<Rightarrow> pyfun" where
  "close_over_kwargs fn kw =
     \<lparr>py_call = (\<lambda>args _. py_call fn args kw), py_jvp = (\<lambda>args _ tans. py_jvp fn args kw tans)\<rparr>"

text \<open>The primary component of a tangent of a \<open>(primary, auxiliary)\<close> pair, if it is a pair.\<close>

definition primary_of :: "'a pytree \<Rightarrow> 'a pytree option" where
  "primary_of t = map_option fst (as_pair t)"

text \<open>
  \<open>f\<close> with another tangent for its auxiliary output: a function that differs from
  \<open>f\<close> only in the tangent it propagates to the auxiliary component.
\<close>

definition f_fun_other_aux_tangent :: pyfun where
  "f_fun_other_aux_tangent =
     \<lparr>py_call = py_call f_fun,
      py_jvp = (\<lambda>args kw tans. case as_pair (py_jvp f_fun args kw tans) of
                  Some (ans_dot, aux_dot) \<Rightarrow> PTuple [ans_dot, Leaf (Array Float32 [] [42])]
                | None \<Rightarrow> PTuple [])\<rparr>"

text \<open>
  The raw output of the batched driver for an output leaf \<open>y\<close>, with \<open>d\<close> directions: an
  array of the tangent dtype and of shape \<open>output_shape + (d,)\<close>, holding one element per
  index.
\<close>

definition stacked_of :: "nat \<Rightarrow> jarray \<Rightarrow> jarray \<Rightarrow> bool" where
  "stacked_of d y a \<longleftrightarrow>
     dtype_of a = primal_dtype_to_tangent_dtype (dtype_of y) \<and> np_shape a = np_shape y @ [d]
     \<and> length (arr_data a) = np_size y * d"

text \<open>
  A function of a real array with a complex result, as \<open>(x * 1j).sum()\<close> is: only the
  dtype of the result matters here, its tangent is the sum of the tangents.
\<close>

definition complex_fun :: pyfun where
  "complex_fun =
     \<lparr>py_call = (\<lambda>args kw. case args of
                    [Leaf (Array dt sh xs)] \<Rightarrow> Some (Leaf (Array Complex64 [] [sum_list xs]))
                  | _ \<Rightarrow> None),
      py_jvp = (\<lambda>args kw tans. case (args, tans) of
                    ([Leaf (Array dt sh xs)], [Some (Leaf (Array dt' sh' ts))]) \<Rightarrow>
                      Leaf (Array Complex64 [] [snd (sum_jvp (zip xs ts))])
                  | _ \<Rightarrow> PTuple [])\<rparr>"

text \<open>
  Flattening the trailing axes of the reassembled jacobian of one output leaf in canonical
  order: \<open>pre\<close> is the output shape and \<open>parts\<close> holds one array per input leaf, in
  flattened order, each of shape \<open>pre + input_leaf_shape\<close> in row-major layout. For
  each output index the blocks of the parts are laid side by side.
\<close>

definition trailing_size :: "nat list \<Rightarrow> jarray \<Rightarrow> nat" where
  "trailing_size pre a = prod_list (drop (length pre) (np_shape a))"

definition ravel_trailing :: "nat list \<Rightarrow> jarray list \<Rightarrow> real list" where
  "ravel_trailing pre parts =
     concat (map (\<lambda>r. concat (map (\<lambda>a. take (trailing_size pre a)
                                          (drop (r * trailing_size pre a) (arr_data a)))
                                  parts))
                 [0..<prod_list pre])"

text \<open>
  A function of one nested argument, a pair \<open>(a, b)\<close> of arrays:
  \<open>a.sum() + 2 * b.sum()\<close>. Its tangent is the same expression in the tangents.
\<close>

definition lin_fun :: pyfun where
  "lin_fun =
     \<lparr>py_call = (\<lambda>args kw. case args of
                    [PTuple [Leaf (Array dt sh xs), Leaf (Array dt' sh' ys)]] \<Rightarrow>
                      Some (Leaf (Array dt [] [sum_list xs + 2 * sum_list ys]))
                  | _ \<Rightarrow> None),
      py_jvp = (\<lambda>args kw tans. case (args, tans) of
                    ([PTuple [Leaf (Array dt sh xs), Leaf (Array dt' sh' ys)]],
                     [Some (PTuple [Leaf (Array dt1 sh1 ts), Leaf (Array dt2 sh2 us)])]) \<Rightarrow>
                      Leaf (Array dt [] [sum_list ts + 2 * sum_list us])
                  | _ \<Rightarrow> PTuple [])\<rparr>"

definition nested_arg :: "jarray pytree" where
  "nested_arg = PTuple [Leaf (Array Float32 [2] [1, 2]), Leaf (Array Float32 [1, 2] [3, 4])]"

definition empty_arg :: "jarray pytree" where
  "empty_arg = Leaf (Array Float32 [0] [])"

text \<open>
  A constant function, \<open>lambda x: 1.0\<close>, with the zero tangent; an argument that holds no
  array at all, the empty tuple; and an array of shape \<open>(0, 3)\<close>, which has no element.
\<close>

definition const_fun :: pyfun where
  "const_fun =
     \<lparr>py_call = (\<lambda>args kw. Some (Leaf (Array Float32 [] [1]))),
      py_jvp = (\<lambda>args kw tans. Leaf (Array Float32 [] [0]))\<rparr>"

definition no_leaf_arg :: "jarray pytree" where
  "no_leaf_arg = PTuple []"

definition empty_matrix_arg :: "jarray pytree" where
  "empty_matrix_arg = Leaf (Array Float32 [0, 3] [])"

section \<open>The codec: flattening and rebuilding\<close>

lemma tree_structure_simps [simp]:
  "tree_structure (Leaf x) = Leaf ()"
  "tree_structure (PTuple ts) = PTuple (map tree_structure ts)"
  "tree_structure (PList ts) = PList (map tree_structure ts)"
  by (simp_all add: tree_structure_def)

lemma unflatten_seq_take:
  assumes IH: "\<And>t (xs :: 'b list). t \<in> set ts \<Longrightarrow> length (tree_leaves t) \<le> length xs \<Longrightarrow>
     \<exists>t'. unflatten_aux (tree_structure t) xs = Some (t', drop (length (tree_leaves t)) xs)
        \<and> tree_leaves t' = take (length (tree_leaves t)) xs
        \<and> tree_structure t' = tree_structure t"
  shows "length (concat (map tree_leaves ts)) \<le> length (xs :: 'b list) \<Longrightarrow>
     \<exists>cs. unflatten_seq (map tree_structure ts) xs
            = Some (cs, drop (length (concat (map tree_leaves ts))) xs)
        \<and> concat (map tree_leaves cs) = take (length (concat (map tree_leaves ts))) xs
        \<and> map tree_structure cs = map tree_structure ts"
  using IH
proof (induction ts arbitrary: xs)
  case Nil
  then show ?case by simp
next
  case (Cons t ts)
  let ?a = "length (tree_leaves t)"
  let ?b = "length (concat (map tree_leaves ts))"
  from Cons.prems(1) have la: "?a \<le> length xs" and lb: "?b \<le> length (drop ?a xs)"
    by simp_all
  from Cons.prems(2)[of t xs] la obtain t' where
    t': "unflatten_aux (tree_structure t) xs = Some (t', drop ?a xs)"
        "tree_leaves t' = take ?a xs" "tree_structure t' = tree_structure t"
    by auto
  have "\<exists>cs. unflatten_seq (map tree_structure ts) (drop ?a xs)
            = Some (cs, drop ?b (drop ?a xs))
        \<and> concat (map tree_leaves cs) = take ?b (drop ?a xs)
        \<and> map tree_structure cs = map tree_structure ts"
    using Cons.IH[OF lb] Cons.prems(2) by simp
  then obtain cs where
    cs: "unflatten_seq (map tree_structure ts) (drop ?a xs) = Some (cs, drop ?b (drop ?a xs))"
        "concat (map tree_leaves cs) = take ?b (drop ?a xs)"
        "map tree_structure cs = map tree_structure ts"
    by blast
  show ?case
    using t' cs by (intro exI[of _ "t' # cs"]) (simp add: take_add add.commute)
qed

lemma unflatten_aux_take:
  "length (tree_leaves t) \<le> length (xs :: 'b list) \<Longrightarrow>
     \<exists>t'. unflatten_aux (tree_structure t) xs = Some (t', drop (length (tree_leaves t)) xs)
        \<and> tree_leaves t' = take (length (tree_leaves t)) xs
        \<and> tree_structure t' = tree_structure t"
proof (induction t arbitrary: xs)
  case (Leaf x)
  then show ?case by (cases xs) (simp_all add: take_Suc_conv_app_nth)
next
  case (PTuple ts)
  from unflatten_seq_take[of ts xs, OF PTuple.IH] PTuple.prems
  obtain cs where "unflatten_seq (map tree_structure ts) xs
            = Some (cs, drop (length (concat (map tree_leaves ts))) xs)"
        "concat (map tree_leaves cs) = take (length (concat (map tree_leaves ts))) xs"
        "map tree_structure cs = map tree_structure ts"
    by auto
  then show ?case by (intro exI[of _ "PTuple cs"]) simp
next
  case (PList ts)
  from unflatten_seq_take[of ts xs, OF PList.IH] PList.prems
  obtain cs where "unflatten_seq (map tree_structure ts) xs
            = Some (cs, drop (length (concat (map tree_leaves ts))) xs)"
        "concat (map tree_leaves cs) = take (length (concat (map tree_leaves ts))) xs"
        "map tree_structure cs = map tree_structure ts"
    by auto
  then show ?case by (intro exI[of _ "PList cs"]) simp
qed

lemma tree_unflatten_structure:
  assumes "length xs = length (tree_leaves t)"
  shows "\<exists>t'. tree_unflatten (tree_structure t) xs = Some t'
           \<and> tree_leaves t' = xs \<and> tree_structure t' = tree_structure t"
  using unflatten_aux_take[of t xs] assms by (auto simp: tree_unflatten_def)

lemma tree_leaves_map: "tree_leaves (map_pytree f t) = map f (tree_leaves t)"
  by (induction t) (simp_all add: map_concat comp_def cong: map_cong)

lemma tree_structure_map [simp]: "tree_structure (map_pytree f t) = tree_structure t"
  by (simp add: tree_structure_def pytree.map_comp comp_def)

lemma length_leaves_structure:
  assumes "tree_structure t = tree_structure t'"
  shows "length (tree_leaves t) = length (tree_leaves t')"
proof -
  have "map (\<lambda>_. ()) (tree_leaves t) = map (\<lambda>_. ()) (tree_leaves t')"
    using assms by (simp add: tree_structure_def flip: tree_leaves_map)
  then show ?thesis by (metis length_map)
qed

lemma pytree_list_eqI:
  assumes IH: "\<And>t t'. t \<in> set ts \<Longrightarrow> tree_structure t = tree_structure t' \<Longrightarrow>
                 tree_leaves t = tree_leaves t' \<Longrightarrow> t = t'"
  shows "map tree_structure ts = map tree_structure ts' \<Longrightarrow>
         concat (map tree_leaves ts) = concat (map tree_leaves ts') \<Longrightarrow> ts = ts'"
  using IH
proof (induction ts arbitrary: ts')
  case Nil
  then show ?case by simp
next
  case (Cons t ts)
  from Cons.prems(1) obtain u us where ts': "ts' = u # us"
    and st: "tree_structure t = tree_structure u"
    and sts: "map tree_structure ts = map tree_structure us"
    by (cases ts') auto
  have len: "length (tree_leaves t) = length (tree_leaves u)"
    by (rule length_leaves_structure[OF st])
  from Cons.prems(2) ts' len have l1: "tree_leaves t = tree_leaves u"
    and l2: "concat (map tree_leaves ts) = concat (map tree_leaves us)"
    by simp_all
  have "t = u" using Cons.prems(3)[of t u] st l1 by simp
  moreover have "ts = us" using Cons.IH[OF sts l2] Cons.prems(3) by simp
  ultimately show ?case using ts' by simp
qed

lemma pytree_eqI:
  "tree_structure t = tree_structure t' \<Longrightarrow> tree_leaves t = tree_leaves t' \<Longrightarrow> t = t'"
proof (induction t arbitrary: t')
  case (Leaf x)
  then show ?case by (cases t') simp_all
next
  case (PTuple ts)
  from PTuple.prems(1) obtain ts' where t': "t' = PTuple ts'" by (cases t') simp_all
  with PTuple.prems have "ts = ts'"
    by (intro pytree_list_eqI[OF PTuple.IH]) simp_all
  with t' show ?case by simp
next
  case (PList ts)
  from PList.prems(1) obtain ts' where t': "t' = PList ts'" by (cases t') simp_all
  with PList.prems have "ts = ts'"
    by (intro pytree_list_eqI[OF PList.IH]) simp_all
  with t' show ?case by simp
qed

lemma tree_unflatten_map:
  "tree_unflatten (tree_structure t) (map f (tree_leaves t)) = Some (map_pytree f t)"
proof -
  obtain t' where t': "tree_unflatten (tree_structure t) (map f (tree_leaves t)) = Some t'"
    "tree_leaves t' = map f (tree_leaves t)" "tree_structure t' = tree_structure t"
    using tree_unflatten_structure[of "map f (tree_leaves t)" t] by auto
  have "t' = map_pytree f t"
    by (rule pytree_eqI) (simp_all add: t' tree_leaves_map)
  with t' show ?thesis by simp
qed

lemma tree_unflatten_leaves: "tree_unflatten (tree_structure t) (tree_leaves t) = Some t"
  using tree_unflatten_map[of t id] by (simp add: pytree.map_id)

section \<open>Unfolding \<open>_jvp\<close>\<close>

lemma place_id:
  "list_all (\<lambda>i. i < length args) js \<Longrightarrow> place (zip js (map ((!) args) js)) args = args"
  by (induction js) simp_all

lemma flat_call_leaves:
  "flat_call f (tree_structure p) (tree_leaves p) =
     (case wf_call f (children p) of None \<Rightarrow> Inl FunctionRaised | Some ans \<Rightarrow> Inr ans)"
  by (simp add: flat_call_def tree_unflatten_leaves)

lemma unflatten_or_fail_leaves: "unflatten_or_fail (tree_structure t) (tree_leaves t) = Inr t"
  by (simp add: unflatten_or_fail_def tree_unflatten_leaves)


lemma ad_jvp_flat:
  "ad_jvp (flatten_fun_nokwargs f (tree_structure p)) (tree_leaves p) ts =
     (case wf_call f (children p) of
        None \<Rightarrow> Inl FunctionRaised
      | Some out \<Rightarrow>
          Inr ((tree_leaves out,
                out_tangents_of (snd (flatten_fun_nokwargs f (tree_structure p)))
                  (tree_leaves p) ts (tree_leaves out)),
               tree_structure out))"
  by (simp add: ad_jvp_def flatten_fun_nokwargs_def flat_call_leaves tree_flatten_def
      split: option.split)

lemma ad_jvp_aux_flat:
  "ad_jvp_aux (flatten_fun_nokwargs2 f (tree_structure p)) (tree_leaves p) ts =
     (case wf_call f (children p) of
        None \<Rightarrow> Inl FunctionRaised
      | Some out \<Rightarrow>
          (case as_pair out of
             None \<Rightarrow> Inl AuxPairError
           | Some (y, aux) \<Rightarrow>
               Inr (((tree_leaves y,
                      out_tangents_of (snd (flatten_fun_nokwargs2 f (tree_structure p)))
                        (tree_leaves p) ts (tree_leaves y)),
                     tree_leaves aux),
                    (tree_structure y, tree_structure aux))))"
  by (simp add: ad_jvp_aux_def flatten_fun_nokwargs2_def flat_call_leaves
      split: option.split)

lemma jvp_no_aux_checked:
  assumes "is_tuple_or_list p" "is_tuple_or_list t" "tree_structure t = tree_structure p"
    and "check_pairs (zip (tree_leaves p) (tree_leaves t)) = None"
  shows "jvp f p t False =
     (case wf_call f (children p) of
        None \<Rightarrow> Inl FunctionRaised
      | Some out \<Rightarrow>
          (case unflatten_or_fail (tree_structure out)
                  (out_tangents_of (snd (flatten_fun_nokwargs f (tree_structure p)))
                     (tree_leaves p) (tree_leaves t) (tree_leaves out)) of
             Inr y_dot \<Rightarrow> Inr (NoAux out y_dot)
           | Inl e \<Rightarrow> Inl TreeUnflattenError))"
proof -
  have len: "length (tree_leaves p) = length (tree_leaves t)"
    using assms(3) by (metis length_leaves_structure)
  show ?thesis
    using assms len
    by (simp add: jvp_def tree_flatten_def ad_jvp_flat unflatten_or_fail_leaves
        split: option.split sum.split)
qed

lemma jvp_aux_checked:
  assumes "is_tuple_or_list p" "is_tuple_or_list t" "tree_structure t = tree_structure p"
    and "check_pairs (zip (tree_leaves p) (tree_leaves t)) = None"
  shows "jvp f p t True =
     (case wf_call f (children p) of
        None \<Rightarrow> Inl FunctionRaised
      | Some out \<Rightarrow>
          (case as_pair out of
             None \<Rightarrow> Inl AuxPairError
           | Some (y, aux) \<Rightarrow>
              (case unflatten_or_fail (tree_structure y)
                  (out_tangents_of (snd (flatten_fun_nokwargs2 f (tree_structure p)))
                     (tree_leaves p) (tree_leaves t) (tree_leaves y)) of
                 Inr y_dot \<Rightarrow> Inr (WithAux y y_dot aux)
               | Inl e \<Rightarrow> Inl TreeUnflattenError)))"
proof -
  have len: "length (tree_leaves p) = length (tree_leaves t)"
    using assms(3) by (metis length_leaves_structure)
  show ?thesis
    using assms len
    by (simp add: jvp_def tree_flatten_def ad_jvp_aux_flat unflatten_or_fail_leaves
        split: option.split sum.split)
qed

lemma jvp_checks:
  "jvp f p t has_aux = Inr r \<Longrightarrow>
     is_tuple_or_list p \<and> is_tuple_or_list t \<and> tree_structure t = tree_structure p
     \<and> check_pairs (zip (tree_leaves p) (tree_leaves t)) = None"
  by (auto simp: jvp_def tree_flatten_def split: if_splits option.splits)

lemma jvp_no_aux_value:
  assumes "jvp f primals tangents False = Inr r"
  shows "\<exists>out y_dot. wf_call f (children primals) = Some out \<and> r = NoAux out y_dot"
proof -
  note c = jvp_checks[OF assms]
  from assms show ?thesis
    unfolding jvp_no_aux_checked[of primals tangents f, OF c[THEN conjunct1]
        c[THEN conjunct2, THEN conjunct1] c[THEN conjunct2, THEN conjunct2, THEN conjunct1]
        c[THEN conjunct2, THEN conjunct2, THEN conjunct2]]
    by (auto split: option.splits sum.splits)
qed

lemma jvp_aux_value:
  assumes "jvp f primals tangents True = Inr r"
  shows "\<exists>out y aux y_dot. wf_call f (children primals) = Some out
          \<and> as_pair out = Some (y, aux) \<and> r = WithAux y y_dot aux"
proof -
  note c = jvp_checks[OF assms]
  from assms show ?thesis
    unfolding jvp_aux_checked[of primals tangents f, OF c[THEN conjunct1]
        c[THEN conjunct2, THEN conjunct1] c[THEN conjunct2, THEN conjunct2, THEN conjunct1]
        c[THEN conjunct2, THEN conjunct2, THEN conjunct2]]
    by (auto split: option.splits sum.splits)
qed

section \<open>What \<open>jacfun\<close> returns\<close>

lemma vmap_value:
  assumes "vmap g b = Inr r"
  shows "\<exists>r0. g (map_pytree to_tracer b) = Inr r0 \<and>
           (case r0 of NoAux y d \<Rightarrow> \<exists>j. r = NoAux y j
                     | WithAux y d a \<Rightarrow> \<exists>j. r = WithAux y j a)"
  using assms
  by (auto simp: vmap_def split: option.splits sum.splits fwd_result.splits)

lemma argnums_partial_Inr:
  assumes "argnums_partial f argnums args = Inr (fp, dyn)"
  shows "dyn = PTuple (map ((!) args) (ensure_index_tuple argnums))
         \<and> list_all (\<lambda>i. i < length args) (ensure_index_tuple argnums)
         \<and> wf_call fp (children dyn) = wf_call f args"
  using assms
  by (auto simp: argnums_partial_def Let_def place_id split: if_splits)

lemma jacfun_Inr:
  assumes "jacfun fn argnums holomorphic has_aux args kw = Inr r"
  shows "\<exists>out. py_call fn args kw = Some out \<and>
           (if has_aux
            then \<exists>y aux jac. as_pair out = Some (y, aux) \<and> r = ValueAuxJac y aux jac
            else \<exists>jac. r = ValueJac out jac)"
proof -
  from assms obtain fp dyn r' where
    ap: "argnums_partial (wrap_init fn kw) argnums args = Inr (fp, dyn)"
    and vm: "vmap (\<lambda>tangents. jvp fp dyn tangents has_aux) (std_basis dyn) = Inr r'"
    and res: "r = (case r' of
                WithAux y jac aux \<Rightarrow> ValueAuxJac y aux
                   (tree_bind jac (unravel_array_into_pytree (example_args_of argnums dyn)))
              | NoAux y jac \<Rightarrow> ValueJac y
                   (tree_bind jac (unravel_array_into_pytree (example_args_of argnums dyn))))"
    by (auto simp: jacfun_def Let_def split: sum.splits if_splits fwd_result.splits)
  have "wf_call fp (children dyn) = wf_call (wrap_init fn kw) args"
    using argnums_partial_Inr[OF ap] by blast
  then have call: "wf_call fp (children dyn) = py_call fn args kw"
    by (simp add: wrap_init_def)
  from vmap_value[OF vm] obtain r0 where
    g: "jvp fp dyn (map_pytree to_tracer (std_basis dyn)) has_aux = Inr r0"
    and r0: "case r0 of NoAux y d \<Rightarrow> \<exists>j. r' = NoAux y j
                     | WithAux y d a \<Rightarrow> \<exists>j. r' = WithAux y j a"
    by blast
  show ?thesis
  proof (cases has_aux)
    case True
    with g have "jvp fp dyn (map_pytree to_tracer (std_basis dyn)) True = Inr r0" by simp
    from jvp_aux_value[OF this] obtain out y aux y_dot where
      "wf_call fp (children dyn) = Some out" "as_pair out = Some (y, aux)"
      "r0 = WithAux y y_dot aux"
      by blast
    moreover from this call have "py_call fn args kw = Some out" by simp
    ultimately show ?thesis using r0 res True by (intro exI[of _ out]) auto
  next
    case False
    with g have "jvp fp dyn (map_pytree to_tracer (std_basis dyn)) False = Inr r0" by simp
    from jvp_no_aux_value[OF this] obtain out y_dot where
      "wf_call fp (children dyn) = Some out" "r0 = NoAux out y_dot"
      by blast
    moreover from this call have "py_call fn args kw = Some out" by simp
    ultimately show ?thesis using r0 res False by (intro exI[of _ out]) auto
  qed
qed

lemma g_fun_run:
  "jacfun g_fun (Index 0) False False [Leaf x012] [] =
     Inr (ValueJac (Leaf (Array Float32 [] [5])) (Leaf (Array Float32 [3] [0, 2, 4])))"
  by code_simp

lemma f_fun_run:
  "jacfun f_fun (Index 0) False True [Leaf x012] [] =
     Inr (ValueAuxJac (Leaf (Array Float32 [] [5])) (Leaf (Array Float32 [] [3]))
            (Leaf (Array Float32 [3] [0, 2, 4])))"
  by code_simp

section \<open>The claims\<close>

text \<open>
  C1. Whenever the function returned by \<open>value_and_jacfwd\<close> returns, its value component
  is what one direct call of the function on the same arguments returns: the whole
  output without \<open>has_aux\<close>, and with \<open>has_aux\<close> the first component of the returned
  pair (the auxiliary output being its second component). Equality of the modelled
  arrays is equality of every element.
\<close>

theorem value_and_jacfwd_value:
  assumes "jacfun fn argnums holomorphic has_aux args kw = Inr r"
  shows "\<exists>out. py_call fn args kw = Some out \<and>
           (if has_aux
            then \<exists>y aux jac. as_pair out = Some (y, aux) \<and> r = ValueAuxJac y aux jac
            else \<exists>jac. r = ValueJac out jac)"
  using assms by (rule jacfun_Inr)

theorem value_and_jacfwd_value_witness:
  "jacfun g_fun (Index 0) False False [Leaf x012] [] =
     Inr (ValueJac (Leaf (Array Float32 [] [5])) (Leaf (Array Float32 [3] [0, 2, 4])))
   \<and> py_call g_fun [Leaf x012] [] = Some (Leaf (Array Float32 [] [5]))
   \<and> jacfun f_fun (Index 0) False True [Leaf x012] [] =
     Inr (ValueAuxJac (Leaf (Array Float32 [] [5])) (Leaf (Array Float32 [] [3]))
            (Leaf (Array Float32 [3] [0, 2, 4])))
   \<and> map_option fst (as_pair (the (py_call f_fun [Leaf x012] [])))
       = Some (Leaf (Array Float32 [] [5]))"
  using value_and_jacfwd_value[OF g_fun_run] value_and_jacfwd_value[OF f_fun_run]
    g_fun_run f_fun_run
  by auto

text \<open>
  C2. For \<open>g(x) = (x ** 2).sum()\<close> and \<open>x = [0, 1, 2]\<close>, with the default \<open>argnums = 0\<close>,
  \<open>holomorphic = False\<close> and \<open>has_aux = False\<close>, \<open>value_and_jacfwd(g)(x)\<close> returns the
  value 5 and the jacobian \<open>[0, 2, 4]\<close>.
\<close>

theorem sum_of_squares_example:
  "\<exists>jf. value_and_jacfwd (Function g_fun) (Index 0) False False = Inr jf
      \<and> jf [Leaf x012] [] =
          Inr (ValueJac (Leaf (Array Float32 [] [5])) (Leaf (Array Float32 [3] [0, 2, 4])))"
  by (simp add: value_and_jacfwd_def g_fun_run)

text \<open>
  C4. Every call of the function returned by \<open>value_and_jacfwd\<close> that returns gives
  \<open>(value, jacobian)\<close> when \<open>has_aux\<close> is false and \<open>((value, aux), jacobian)\<close> when it is
  true.
\<close>

theorem return_shape:
  assumes "value_and_jacfwd fn argnums holomorphic has_aux = Inr jf"
    and "jf args kw = Inr r"
  shows "(has_aux \<longrightarrow> (\<exists>y aux jac. r = ValueAuxJac y aux jac))
       \<and> (\<not> has_aux \<longrightarrow> (\<exists>y jac. r = ValueJac y jac))"
proof -
  from assms obtain f where "fn = Function f"
    and "jacfun f argnums holomorphic has_aux args kw = Inr r"
    by (auto simp: value_and_jacfwd_def split: pyobj.splits)
  from jacfun_Inr[OF this(2)] show ?thesis by (auto split: if_splits)
qed

theorem return_shape_witness:
  "(\<exists>y jac. ValueJac (Leaf (Array Float32 [] [5])) (Leaf (Array Float32 [3] [0, 2, 4]))
              = ValueJac y jac)
   \<and> (\<exists>y aux jac. ValueAuxJac (Leaf (Array Float32 [] [5])) (Leaf (Array Float32 [] [3]))
              (Leaf (Array Float32 [3] [0, 2, 4])) = ValueAuxJac y aux jac)
   \<and> value_and_jacfwd (Function g_fun) (Index 0) False False
        = Inr (jacfun g_fun (Index 0) False False)
   \<and> value_and_jacfwd (Function f_fun) (Index 0) False True
        = Inr (jacfun f_fun (Index 0) False True)"
proof -
  have a: "value_and_jacfwd (Function g_fun) (Index 0) False False
             = Inr (jacfun g_fun (Index 0) False False)"
    and b: "value_and_jacfwd (Function f_fun) (Index 0) False True
             = Inr (jacfun f_fun (Index 0) False True)"
    by (simp_all add: value_and_jacfwd_def)
  show ?thesis
    using return_shape[OF a g_fun_run] return_shape[OF b f_fun_run] a b by simp
qed

text \<open>
  C9. \<open>value_and_jacfwd\<close> begins with the check that its function argument can be
  called: for an object that cannot, it fails with \<open>NotCallableError\<close> whatever the other
  arguments are, and no function is returned, so neither argument selection nor dtype
  validation nor any jacobian work takes place. A callable passes the check.
\<close>

theorem not_callable_rejected:
  "value_and_jacfwd NonCallable argnums holomorphic has_aux = Inl NotCallableError
   \<and> value_and_jacfwd (Function f) argnums holomorphic has_aux
       = Inr (jacfun f argnums holomorphic has_aux)"
  by (simp add: value_and_jacfwd_def)

lemma check_pairs_first:
  assumes "i < length pts" "\<forall>j<i. pair_ok (fst (pts ! j)) (snd (pts ! j))"
    and "\<not> pair_ok (fst (pts ! i)) (snd (pts ! i))"
  shows "check_pairs pts =
     Some (if primal_dtype_to_tangent_dtype (dtype_of (fst (pts ! i))) \<noteq> tv_dtype (snd (pts ! i))
           then DtypeMismatchError else ShapeMismatchError)"
  using assms
proof (induction pts arbitrary: i)
  case Nil
  then show ?case by simp
next
  case (Cons pt pts)
  obtain p t where pt: "pt = (p, t)" by (cases pt)
  show ?case
  proof (cases i)
    case 0
    with Cons.prems pt show ?thesis by (auto simp: pair_ok_def)
  next
    case (Suc k)
    with Cons.prems have ok0: "pair_ok p t" using pt by auto
    from Suc Cons.prems have "k < length pts"
      "\<forall>j<k. pair_ok (fst (pts ! j)) (snd (pts ! j))"
      "\<not> pair_ok (fst (pts ! k)) (snd (pts ! k))"
      by auto
    from Cons.IH[OF this] ok0 pt Suc show ?thesis by (simp add: pair_ok_def)
  qed
qed

lemma jvp_structure_error:
  "\<not> is_tuple_or_list p \<or> \<not> is_tuple_or_list t \<or> tree_structure p \<noteq> tree_structure t
     \<Longrightarrow> jvp f p t has_aux = Inl ArgumentStructureError"
  by (auto simp: jvp_def tree_flatten_def)

lemma jvp_pair_error:
  assumes "is_tuple_or_list p" "is_tuple_or_list t" "tree_structure p = tree_structure t"
    and "check_pairs (zip (tree_leaves p) (tree_leaves t)) = Some e"
  shows "jvp f p t has_aux = Inl e"
proof -
  have "length (tree_leaves p) = length (tree_leaves t)"
    using assms(3) by (rule length_leaves_structure)
  with assms show ?thesis by (simp add: jvp_def tree_flatten_def)
qed

text \<open>
  C6 (as amended). \<open>_jvp\<close> fails with \<open>ArgumentStructureError\<close> when primals or tangents are
  not a tuple or list or their treedefs differ. Otherwise it fails with the error of the
  first offending pair of leaves in flattened order: \<open>DtypeMismatchError\<close> when that
  pair's tangent dtype is not the one derived from its primal dtype, \<open>ShapeMismatchError\<close>
  when its dtype is right and its shapes differ. The function \<open>f\<close> is arbitrary: the
  checks come before any propagation work.
\<close>

theorem jvp_argument_errors:
  "(\<not> is_tuple_or_list p \<or> \<not> is_tuple_or_list t \<or> tree_structure p \<noteq> tree_structure t
      \<longrightarrow> jvp f p t has_aux = Inl ArgumentStructureError)
   \<and> (is_tuple_or_list p \<and> is_tuple_or_list t \<and> tree_structure p = tree_structure t
      \<and> i < length (tree_leaves p)
      \<and> (\<forall>j<i. pair_ok (tree_leaves p ! j) (tree_leaves t ! j))
      \<and> \<not> pair_ok (tree_leaves p ! i) (tree_leaves t ! i)
      \<longrightarrow> jvp f p t has_aux =
            Inl (if primal_dtype_to_tangent_dtype (dtype_of (tree_leaves p ! i))
                      \<noteq> tv_dtype (tree_leaves t ! i)
                 then DtypeMismatchError else ShapeMismatchError))"
proof (intro conjI impI)
  assume "\<not> is_tuple_or_list p \<or> \<not> is_tuple_or_list t \<or> tree_structure p \<noteq> tree_structure t"
  then show "jvp f p t has_aux = Inl ArgumentStructureError" by (rule jvp_structure_error)
next
  assume a: "is_tuple_or_list p \<and> is_tuple_or_list t \<and> tree_structure p = tree_structure t
      \<and> i < length (tree_leaves p)
      \<and> (\<forall>j<i. pair_ok (tree_leaves p ! j) (tree_leaves t ! j))
      \<and> \<not> pair_ok (tree_leaves p ! i) (tree_leaves t ! i)"
  let ?pts = "zip (tree_leaves p) (tree_leaves t)"
  have len: "length (tree_leaves p) = length (tree_leaves t)"
    using a by (intro length_leaves_structure) simp
  have "check_pairs ?pts =
     Some (if primal_dtype_to_tangent_dtype (dtype_of (fst (?pts ! i))) \<noteq> tv_dtype (snd (?pts ! i))
           then DtypeMismatchError else ShapeMismatchError)"
    using a len by (intro check_pairs_first) auto
  moreover have "?pts ! i = (tree_leaves p ! i, tree_leaves t ! i)"
    using a len by simp
  ultimately show "jvp f p t has_aux =
            Inl (if primal_dtype_to_tangent_dtype (dtype_of (tree_leaves p ! i))
                      \<noteq> tv_dtype (tree_leaves t ! i)
                 then DtypeMismatchError else ShapeMismatchError)"
    using a by (intro jvp_pair_error) simp_all
qed

theorem jvp_argument_errors_witness:
  "jvp (wrap_init g_fun []) (Leaf x012) (PTuple [Leaf (Concrete x012)]) False
     = Inl ArgumentStructureError
   \<and> jvp (wrap_init g_fun []) (PTuple [Leaf x012]) (PList [Leaf (Concrete x012)]) False
     = Inl ArgumentStructureError
   \<and> jvp (wrap_init g_fun []) (PTuple [Leaf x012])
        (PTuple [Leaf (Concrete (Array Int32 [3] [0, 0, 0]))]) False
     = Inl DtypeMismatchError
   \<and> jvp (wrap_init g_fun []) (PTuple [Leaf x012, Leaf x012])
        (PTuple [Leaf (Concrete x012), Leaf (Concrete (Array Float32 [2] [0, 0]))]) False
     = Inl ShapeMismatchError"
  using jvp_argument_errors[where p = "Leaf x012" and t = "PTuple [Leaf (Concrete x012)]"
          and f = "wrap_init g_fun []" and has_aux = False and i = 0]
    jvp_argument_errors[where p = "PTuple [Leaf x012]" and t = "PList [Leaf (Concrete x012)]"
          and f = "wrap_init g_fun []" and has_aux = False and i = 0]
    jvp_argument_errors[where p = "PTuple [Leaf x012]"
          and t = "PTuple [Leaf (Concrete (Array Int32 [3] [0, 0, 0]))]"
          and f = "wrap_init g_fun []" and has_aux = False and i = 0]
    jvp_argument_errors[where p = "PTuple [Leaf x012, Leaf x012]"
          and t = "PTuple [Leaf (Concrete x012), Leaf (Concrete (Array Float32 [2] [0, 0]))]"
          and f = "wrap_init g_fun []" and has_aux = False and i = 1]
  by (simp add: pair_ok_def x012_def)

text \<open>
  C6 as stated fails: a pair whose shapes differ and whose tangent dtype is wrong as well
  gives \<open>DtypeMismatchError\<close>, not \<open>ShapeMismatchError\<close>, since the loop checks the dtype
  of a pair before its shape.
\<close>

theorem shape_mismatch_counterexample:
  "np_shape (Array Float32 [2] [0, 0]) \<noteq> tv_shape (Concrete (Array Int32 [3] [0, 0, 0]))
   \<and> jvp (wrap_init g_fun []) (PTuple [Leaf (Array Float32 [2] [0, 0])])
        (PTuple [Leaf (Concrete (Array Int32 [3] [0, 0, 0]))]) False
      = Inl DtypeMismatchError
   \<and> jvp (wrap_init g_fun []) (PTuple [Leaf (Array Float32 [2] [0, 0])])
        (PTuple [Leaf (Concrete (Array Int32 [3] [0, 0, 0]))]) False
      \<noteq> Inl ShapeMismatchError"
  by (simp add: jvp_def tree_flatten_def)

lemma wrap_init_close_over: "wrap_init (close_over_kwargs fn kw) kw' = wrap_init fn kw"
  by (simp add: wrap_init_def close_over_kwargs_def)

lemma sum_list_dof_concat:
  "sum_list (map dof (concat xss)) = sum_list (map (\<lambda>xs. sum_list (map dof xs)) xss)"
  by (induction xss) simp_all

lemma basis_dim_tuple:
  "basis_dim (PTuple ts) = sum_list (map basis_dim ts)"
  by (simp add: basis_dim_def[abs_def] sum_list_dof_concat comp_def)

text \<open>
  C10. The keyword arguments reach the function only as closed-over values: calling with
  \<open>kw\<close> is calling, with any keyword arguments, the function that has \<open>kw\<close> built in.
  The differentiated arguments are the positional arguments that \<open>argnums\<close> selects,
  whatever the keyword arguments are, so the number of basis directions is the sum over
  the selected positional arguments and the jacobian has entries for those only.
\<close>

theorem kwargs_closed_over:
  "jacfun fn argnums holomorphic has_aux args kw
     = jacfun (close_over_kwargs fn kw) argnums holomorphic has_aux args kw'
   \<and> map_sum id snd (argnums_partial (wrap_init fn kw) argnums args)
     = (if list_all (\<lambda>i. i < length args) (ensure_index_tuple argnums)
        then Inr (PTuple (map ((!) args) (ensure_index_tuple argnums)))
        else Inl IndexError)
   \<and> basis_dim (PTuple (map ((!) args) (ensure_index_tuple argnums)))
     = sum_list (map (\<lambda>i. basis_dim (args ! i)) (ensure_index_tuple argnums))"
proof (intro conjI)
  show "jacfun fn argnums holomorphic has_aux args kw
     = jacfun (close_over_kwargs fn kw) argnums holomorphic has_aux args kw'"
    unfolding jacfun_def wrap_init_close_over ..
  show "map_sum id snd (argnums_partial (wrap_init fn kw) argnums args)
     = (if list_all (\<lambda>i. i < length args) (ensure_index_tuple argnums)
        then Inr (PTuple (map ((!) args) (ensure_index_tuple argnums)))
        else Inl IndexError)"
    by (simp add: argnums_partial_def Let_def)
  show "basis_dim (PTuple (map ((!) args) (ensure_index_tuple argnums)))
     = sum_list (map (\<lambda>i. basis_dim (args ! i)) (ensure_index_tuple argnums))"
    by (simp add: basis_dim_tuple comp_def)
qed

lemma primary_leaves:
  "(case as_pair t of None \<Rightarrow> [] | Some (ans_dot, aux_dot) \<Rightarrow> tree_leaves ans_dot)
     = (case primary_of t of None \<Rightarrow> [] | Some ans_dot \<Rightarrow> tree_leaves ans_dot)"
  by (simp add: primary_of_def split: option.split)

lemma flatten_fun_nokwargs2_cong:
  assumes "wf_call f' = wf_call f"
    and "\<And>a t. primary_of (wf_jvp f' a t) = primary_of (wf_jvp f a t)"
  shows "flatten_fun_nokwargs2 f' td = flatten_fun_nokwargs2 f td"
proof -
  have "primary_of (flat_tangent f' td a t) = primary_of (flat_tangent f td a t)" for a t
    using assms(2) by (simp add: flat_tangent_def split: option.split)
  moreover have "flat_call f' td = flat_call f td"
    using assms(1) by (auto simp: flat_call_def fun_eq_iff split: option.split)
  ultimately show ?thesis
    by (simp add: flatten_fun_nokwargs2_def primary_leaves)
qed

lemma jvp_aux_cong:
  assumes "wf_call f' = wf_call f"
    and "\<And>a t. primary_of (wf_jvp f' a t) = primary_of (wf_jvp f a t)"
  shows "jvp f' p t True = jvp f p t True"
  unfolding jvp_def by (simp only: flatten_fun_nokwargs2_cong[OF assms] if_True)

lemma jacfun_aux_cong:
  assumes "py_call fn' = py_call fn"
    and "\<And>a k t. primary_of (py_jvp fn' a k t) = primary_of (py_jvp fn a k t)"
  shows "jacfun fn' argnums h True args kw = jacfun fn argnums h True args kw"
proof (cases "list_all (\<lambda>i. i < length args) (ensure_index_tuple argnums)")
  case False
  then show ?thesis by (simp add: jacfun_def argnums_partial_def Let_def)
next
  case True
  let ?js = "ensure_index_tuple argnums"
  let ?dyn = "PTuple (map ((!) args) ?js)"
  let ?fp = "\<lambda>g. \<lparr>wf_call = (\<lambda>dyn. wf_call (wrap_init g kw) (place (zip ?js dyn) args)),
                 wf_jvp = (\<lambda>dyn tans. wf_jvp (wrap_init g kw) (place (zip ?js dyn) args)
                                          (place (zip ?js tans) (map (\<lambda>_. None) args)))\<rparr>"
  have ap: "argnums_partial (wrap_init g kw) argnums args = Inr (?fp g, ?dyn)" for g
    using True by (simp add: argnums_partial_def Let_def)
  have "jvp (?fp fn') ?dyn t True = jvp (?fp fn) ?dyn t True" for t
    by (rule jvp_aux_cong) (simp_all add: wrap_init_def assms)
  then show ?thesis
    by (simp add: jacfun_def ap Let_def)
qed

lemma other_aux_tangent_primary:
  "primary_of (py_jvp f_fun_other_aux_tangent a k t) = primary_of (py_jvp f_fun a k t)"
  by (simp add: f_fun_other_aux_tangent_def primary_of_def split: option.split)

text \<open>
  C3. With \<open>has_aux\<close> a call that returns has found the function's result to be a
  \<open>(primary, auxiliary)\<close> pair, and returns both components as the direct call gives
  them. Only the primary output receives a tangent: a function that differs only in the
  tangent of its auxiliary output gives the same result, jacobian included. For
  \<open>f(x) = ((x ** 2).sum(), x.sum())\<close> at \<open>x = [0, 1, 2]\<close> the value is 5, the auxiliary
  output 3 and the jacobian \<open>[0, 2, 4]\<close>.
\<close>

theorem aux_passthrough:
  assumes "jacfun fn argnums holomorphic True args kw = Inr r"
    and "py_call fn' = py_call fn"
    and "\<And>a k t. primary_of (py_jvp fn' a k t) = primary_of (py_jvp fn a k t)"
  shows "(\<exists>out y aux jac. py_call fn args kw = Some out \<and> as_pair out = Some (y, aux)
            \<and> r = ValueAuxJac y aux jac)
       \<and> jacfun fn' argnums holomorphic True args kw = Inr r
       \<and> jacfun f_fun (Index 0) False True [Leaf x012] [] =
           Inr (ValueAuxJac (Leaf (Array Float32 [] [5])) (Leaf (Array Float32 [] [3]))
                  (Leaf (Array Float32 [3] [0, 2, 4])))"
proof (intro conjI)
  from jacfun_Inr[OF assms(1)]
  show "\<exists>out y aux jac. py_call fn args kw = Some out \<and> as_pair out = Some (y, aux)
            \<and> r = ValueAuxJac y aux jac"
    by auto
  show "jacfun fn' argnums holomorphic True args kw = Inr r"
    using jacfun_aux_cong[OF assms(2,3)] assms(1) by simp
  show "jacfun f_fun (Index 0) False True [Leaf x012] [] =
           Inr (ValueAuxJac (Leaf (Array Float32 [] [5])) (Leaf (Array Float32 [] [3]))
                  (Leaf (Array Float32 [3] [0, 2, 4])))"
    by (rule f_fun_run)
qed

theorem aux_passthrough_witness:
  "jacfun f_fun (Index 0) False True [Leaf x012] [] =
     Inr (ValueAuxJac (Leaf (Array Float32 [] [5])) (Leaf (Array Float32 [] [3]))
            (Leaf (Array Float32 [3] [0, 2, 4])))
   \<and> py_call f_fun [Leaf x012] [] =
       Some (PTuple [Leaf (Array Float32 [] [5]), Leaf (Array Float32 [] [3])])
   \<and> jacfun f_fun_other_aux_tangent (Index 0) False True [Leaf x012] [] =
     Inr (ValueAuxJac (Leaf (Array Float32 [] [5])) (Leaf (Array Float32 [] [3]))
            (Leaf (Array Float32 [3] [0, 2, 4])))"
proof -
  have c: "py_call f_fun_other_aux_tangent = py_call f_fun"
    by (simp add: f_fun_other_aux_tangent_def)
  have "py_call f_fun [Leaf x012] [] =
       Some (PTuple [Leaf (Array Float32 [] [5]), Leaf (Array Float32 [] [3])])"
    by (simp add: f_fun_def x012_def)
  with aux_passthrough[OF f_fun_run c other_aux_tangent_primary]
  show ?thesis by simp
qed

section \<open>The batched driver returns\<close>

lemma rebuild_structure:
  assumes "length xs = length (tree_leaves t)"
  shows "tree_structure (rebuild t xs) = tree_structure t \<and> tree_leaves (rebuild t xs) = xs"
  using tree_unflatten_structure[OF assms] by (auto simp: rebuild_def)

lemma length_basis_leaves [simp]: "length (basis_leaves d off ls) = length ls"
  by (induction ls arbitrary: off) simp_all

lemma std_basis_structure:
  "tree_structure (std_basis t) = tree_structure t
   \<and> tree_leaves (std_basis t) = basis_leaves (basis_dim t) 0 (tree_leaves t)"
  unfolding std_basis_def by (rule rebuild_structure) simp

lemma is_tuple_or_list_structure:
  "tree_structure t = tree_structure t' \<Longrightarrow> is_tuple_or_list t = is_tuple_or_list t'"
  by (cases t; cases t') simp_all

lemma to_tracer_eye_block [simp]:
  "tv_dtype (to_tracer (eye_block d off a)) = dtype_of a"
  "tv_shape (to_tracer (eye_block d off a)) = np_shape a"
  by (simp_all add: to_tracer_def eye_block_def)

lemma check_pairs_basis:
  assumes "\<forall>l\<in>set ls. primal_dtype_to_tangent_dtype (dtype_of l) = dtype_of l"
  shows "check_pairs (zip ls (map to_tracer (basis_leaves d off ls))) = None"
  using assms by (induction ls arbitrary: off) simp_all

lemma batch_size_basis:
  "ls \<noteq> [] \<Longrightarrow> batch_size (map to_tracer (basis_leaves d off ls)) = Some d"
  by (cases ls) (simp_all add: to_tracer_def eye_block_def)

lemma leading_eye_block [simp]: "leading (eye_block d off a) = Some d"
  by (simp add: eye_block_def)

lemma axis_size_basis:
  "ls \<noteq> [] \<Longrightarrow> axis_size (basis_leaves d off ls) = Some d"
proof (cases ls)
  case Nil
  then show "ls \<noteq> [] \<Longrightarrow> ?thesis" by simp
next
  case (Cons a as)
  have "list_all (\<lambda>b. leading b = Some d) (basis_leaves d o' as)" for o'
    by (induction as arbitrary: o') simp_all
  with Cons show ?thesis by simp
qed

lemma out_tangents_batched:
  assumes "batch_size ts = Some d"
  shows "list_all2 (\<lambda>y t. \<exists>sl. t = BatchTracer sl (primal_dtype_to_tangent_dtype (dtype_of y))
                                 (np_shape y) \<and> length sl = d)
           ys (out_tangents_of tg ps ts ys)"
  using assms by (simp add: out_tangents_of_def Let_def list_all2_conv_all_nth)

lemma length_concat_const:
  "(\<And>j. j < n \<Longrightarrow> length (f j) = d) \<Longrightarrow> length (concat (map f [0..<n])) = n * d"
  by (induction n) simp_all

lemma move_to_last_stacked:
  assumes "t = BatchTracer sl (primal_dtype_to_tangent_dtype (dtype_of y)) (np_shape y)"
    and "length sl = d"
  shows "stacked_of d y (move_to_last d t)"
  using assms by (simp add: stacked_of_def np_size_def length_concat_const)

lemma unflatten_tangents:
  assumes "batch_size ts = Some d"
  shows "\<exists>y_dot. unflatten_or_fail (tree_structure y) (out_tangents_of tg ps ts (tree_leaves y))
                   = Inr y_dot
           \<and> tree_structure (map_pytree (move_to_last d) y_dot) = tree_structure y
           \<and> list_all2 (stacked_of d) (tree_leaves y)
                (tree_leaves (map_pytree (move_to_last d) y_dot))"
proof -
  let ?ot = "out_tangents_of tg ps ts (tree_leaves y)"
  have l2: "list_all2 (\<lambda>y t. \<exists>sl. t = BatchTracer sl (primal_dtype_to_tangent_dtype (dtype_of y))
                                 (np_shape y) \<and> length sl = d) (tree_leaves y) ?ot"
    by (rule out_tangents_batched[OF assms])
  then have "length ?ot = length (tree_leaves y)"
    by (simp add: list_all2_lengthD)
  from tree_unflatten_structure[OF this] obtain y_dot where
    y_dot: "tree_unflatten (tree_structure y) ?ot = Some y_dot"
      "tree_leaves y_dot = ?ot" "tree_structure y_dot = tree_structure y"
    by blast
  have "list_all2 (stacked_of d) (tree_leaves y) (map (move_to_last d) ?ot)"
    unfolding list_all2_map2
    by (rule list_all2_mono[OF l2]) (auto intro: move_to_last_stacked)
  with y_dot show ?thesis
    by (simp add: unflatten_or_fail_def tree_leaves_map)
qed

lemma tracers_of_basis:
  assumes "is_tuple_or_list dyn" "tree_leaves dyn \<noteq> []"
    and "\<forall>l\<in>set (tree_leaves dyn). primal_dtype_to_tangent_dtype (dtype_of l) = dtype_of l"
  shows "is_tuple_or_list (map_pytree to_tracer (std_basis dyn))"
    and "tree_structure (map_pytree to_tracer (std_basis dyn)) = tree_structure dyn"
    and "check_pairs (zip (tree_leaves dyn) (tree_leaves (map_pytree to_tracer (std_basis dyn))))
           = None"
    and "batch_size (tree_leaves (map_pytree to_tracer (std_basis dyn))) = Some (basis_dim dyn)"
    and "axis_size (tree_leaves (std_basis dyn)) = Some (basis_dim dyn)"
proof -
  note sb = std_basis_structure[of dyn]
  show s: "tree_structure (map_pytree to_tracer (std_basis dyn)) = tree_structure dyn"
    using sb by simp
  show "is_tuple_or_list (map_pytree to_tracer (std_basis dyn))"
    using is_tuple_or_list_structure[OF s] assms(1) by simp
  show "check_pairs (zip (tree_leaves dyn) (tree_leaves (map_pytree to_tracer (std_basis dyn))))
           = None"
    using sb assms(3) by (simp add: tree_leaves_map check_pairs_basis)
  show "batch_size (tree_leaves (map_pytree to_tracer (std_basis dyn))) = Some (basis_dim dyn)"
    using sb assms(2) by (simp add: tree_leaves_map batch_size_basis)
  show "axis_size (tree_leaves (std_basis dyn)) = Some (basis_dim dyn)"
    using sb assms(2) by (simp add: axis_size_basis)
qed

lemma driver_no_aux:
  assumes "is_tuple_or_list dyn" "tree_leaves dyn \<noteq> []"
    and "\<forall>l\<in>set (tree_leaves dyn). primal_dtype_to_tangent_dtype (dtype_of l) = dtype_of l"
    and "wf_call fp (children dyn) = Some out"
  shows "\<exists>jac. vmap (\<lambda>t. jvp fp dyn t False) (std_basis dyn) = Inr (NoAux out jac)
           \<and> tree_structure jac = tree_structure out
           \<and> list_all2 (stacked_of (basis_dim dyn)) (tree_leaves out) (tree_leaves jac)"
proof -
  note tr = tracers_of_basis[OF assms(1-3)]
  let ?T = "map_pytree to_tracer (std_basis dyn)"
  from unflatten_tangents[OF tr(4), of out "snd (flatten_fun_nokwargs fp (tree_structure dyn))"
      "tree_leaves dyn"]
  obtain y_dot where y_dot:
    "unflatten_or_fail (tree_structure out)
       (out_tangents_of (snd (flatten_fun_nokwargs fp (tree_structure dyn))) (tree_leaves dyn)
          (tree_leaves ?T) (tree_leaves out)) = Inr y_dot"
    "tree_structure (map_pytree (move_to_last (basis_dim dyn)) y_dot) = tree_structure out"
    "list_all2 (stacked_of (basis_dim dyn)) (tree_leaves out)
       (tree_leaves (map_pytree (move_to_last (basis_dim dyn)) y_dot))"
    by blast
  have "jvp fp dyn ?T False = Inr (NoAux out y_dot)"
    using jvp_no_aux_checked[OF assms(1) tr(1) tr(2) tr(3), of fp] assms(4) y_dot(1) by simp
  then have "vmap (\<lambda>t. jvp fp dyn t False) (std_basis dyn)
               = Inr (NoAux out (map_pytree (move_to_last (basis_dim dyn)) y_dot))"
    using tr(5) by (simp add: vmap_def)
  with y_dot(2,3) show ?thesis by blast
qed

lemma driver_aux:
  assumes "is_tuple_or_list dyn" "tree_leaves dyn \<noteq> []"
    and "\<forall>l\<in>set (tree_leaves dyn). primal_dtype_to_tangent_dtype (dtype_of l) = dtype_of l"
    and "wf_call fp (children dyn) = Some out" "as_pair out = Some (y, aux)"
  shows "\<exists>jac. vmap (\<lambda>t. jvp fp dyn t True) (std_basis dyn) = Inr (WithAux y jac aux)
           \<and> tree_structure jac = tree_structure y
           \<and> list_all2 (stacked_of (basis_dim dyn)) (tree_leaves y) (tree_leaves jac)"
proof -
  note tr = tracers_of_basis[OF assms(1-3)]
  let ?T = "map_pytree to_tracer (std_basis dyn)"
  from unflatten_tangents[OF tr(4), of y "snd (flatten_fun_nokwargs2 fp (tree_structure dyn))"
      "tree_leaves dyn"]
  obtain y_dot where y_dot:
    "unflatten_or_fail (tree_structure y)
       (out_tangents_of (snd (flatten_fun_nokwargs2 fp (tree_structure dyn))) (tree_leaves dyn)
          (tree_leaves ?T) (tree_leaves y)) = Inr y_dot"
    "tree_structure (map_pytree (move_to_last (basis_dim dyn)) y_dot) = tree_structure y"
    "list_all2 (stacked_of (basis_dim dyn)) (tree_leaves y)
       (tree_leaves (map_pytree (move_to_last (basis_dim dyn)) y_dot))"
    by blast
  have "jvp fp dyn ?T True = Inr (WithAux y y_dot aux)"
    using jvp_aux_checked[OF assms(1) tr(1) tr(2) tr(3), of fp] assms(4,5) y_dot(1) by simp
  then have "vmap (\<lambda>t. jvp fp dyn t True) (std_basis dyn)
               = Inr (WithAux y (map_pytree (move_to_last (basis_dim dyn)) y_dot) aux)"
    using tr(5) by (simp add: vmap_def)
  with y_dot(2,3) show ?thesis by blast
qed

lemma argnums_partial_ok:
  assumes "list_all (\<lambda>i. i < length args) (ensure_index_tuple argnums)"
  shows "\<exists>fp. argnums_partial f argnums args
                = Inr (fp, PTuple (map ((!) args) (ensure_index_tuple argnums)))"
  using assms by (simp add: argnums_partial_def Let_def)

lemma jacfun_run:
  assumes js: "list_all (\<lambda>i. i < length args) (ensure_index_tuple argnums)"
    and dyn: "dyn = PTuple (map ((!) args) (ensure_index_tuple argnums))"
    and ne: "tree_leaves dyn \<noteq> []"
    and inp: "list_all (check_input_dtype_jacfwd h) (tree_leaves dyn)"
    and tdt: "\<forall>l\<in>set (tree_leaves dyn). primal_dtype_to_tangent_dtype (dtype_of l) = dtype_of l"
    and call: "py_call fn args kw = Some out"
    and prim: "if has_aux then as_pair out = Some (y, aux) else y = out"
  shows "\<exists>fp jac. argnums_partial (wrap_init fn kw) argnums args = Inr (fp, dyn)
           \<and> vmap (\<lambda>t. jvp fp dyn t has_aux) (std_basis dyn)
               = Inr (if has_aux then WithAux y jac aux else NoAux y jac)
           \<and> tree_structure jac = tree_structure y
           \<and> list_all2 (stacked_of (basis_dim dyn)) (tree_leaves y) (tree_leaves jac)
           \<and> jacfun fn argnums h has_aux args kw =
               (if \<not> list_all (check_output_dtype_jacfwd h) (tree_leaves y)
                then Inl OutputDtypeError
                else Inr (if has_aux
                          then ValueAuxJac y aux (tree_bind jac
                                 (unravel_array_into_pytree (example_args_of argnums dyn)))
                          else ValueJac y (tree_bind jac
                                 (unravel_array_into_pytree (example_args_of argnums dyn)))))"
proof -
  from argnums_partial_ok[OF js, of "wrap_init fn kw"] dyn obtain fp where
    ap: "argnums_partial (wrap_init fn kw) argnums args = Inr (fp, dyn)"
    by blast
  have "wf_call fp (children dyn) = wf_call (wrap_init fn kw) args"
    using argnums_partial_Inr[OF ap] by blast
  with call have wc: "wf_call fp (children dyn) = Some out"
    by (simp add: wrap_init_def)
  have seq: "is_tuple_or_list dyn" using dyn by simp
  show ?thesis
  proof (cases has_aux)
    case True
    with prim have pr: "as_pair out = Some (y, aux)" by simp
    from driver_aux[OF seq ne tdt wc pr] obtain jac where
      jac: "vmap (\<lambda>t. jvp fp dyn t True) (std_basis dyn) = Inr (WithAux y jac aux)"
        "tree_structure jac = tree_structure y"
        "list_all2 (stacked_of (basis_dim dyn)) (tree_leaves y) (tree_leaves jac)"
      by blast
    have "jacfun fn argnums h has_aux args kw =
               (if \<not> list_all (check_output_dtype_jacfwd h) (tree_leaves y)
                then Inl OutputDtypeError
                else Inr (ValueAuxJac y aux (tree_bind jac
                                 (unravel_array_into_pytree (example_args_of argnums dyn)))))"
      using True inp jac(1) by (simp add: jacfun_def ap Let_def)
    with jac ap True show ?thesis by (intro exI[of _ fp] exI[of _ jac]) simp
  next
    case False
    with prim have pr: "y = out" by simp
    from driver_no_aux[OF seq ne tdt wc] obtain jac where
      jac: "vmap (\<lambda>t. jvp fp dyn t False) (std_basis dyn) = Inr (NoAux out jac)"
        "tree_structure jac = tree_structure out"
        "list_all2 (stacked_of (basis_dim dyn)) (tree_leaves out) (tree_leaves jac)"
      by blast
    have "jacfun fn argnums h has_aux args kw =
               (if \<not> list_all (check_output_dtype_jacfwd h) (tree_leaves y)
                then Inl OutputDtypeError
                else Inr (ValueJac y (tree_bind jac
                                 (unravel_array_into_pytree (example_args_of argnums dyn)))))"
      using False inp jac(1) pr by (simp add: jacfun_def ap Let_def)
    with jac ap False pr show ?thesis by (intro exI[of _ fp] exI[of _ jac]) simp
  qed
qed

lemma jacfun_input_error:
  assumes js: "list_all (\<lambda>i. i < length args) (ensure_index_tuple argnums)"
    and bad: "\<not> list_all (check_input_dtype_jacfwd h)
                 (tree_leaves (PTuple (map ((!) args) (ensure_index_tuple argnums))))"
  shows "jacfun fn argnums h has_aux args kw = Inl InputDtypeError"
proof -
  from argnums_partial_ok[OF js, of "wrap_init fn kw"] obtain fp where
    "argnums_partial (wrap_init fn kw) argnums args
       = Inr (fp, PTuple (map ((!) args) (ensure_index_tuple argnums)))"
    by blast
  with bad show ?thesis by (simp add: jacfun_def Let_def)
qed

text \<open>
  C7. Without \<open>holomorphic\<close>, a call whose differentiated arguments hold a leaf of integer
  dtype fails with \<open>InputDtypeError\<close>, whatever the function is: the batched driver has
  not run. And when the inputs are valid and hold an array, the function evaluates and
  its primary output holds a leaf of complex dtype, the call fails with
  \<open>OutputDtypeError\<close>: the value is computed, no jacobian is returned.
\<close>

theorem dtype_rejection:
  "(list_all (\<lambda>i. i < length args) (ensure_index_tuple argnums)
      \<and> i \<in> set (ensure_index_tuple argnums) \<and> x \<in> set (tree_leaves (args ! i))
      \<and> dtype_of x = Int32
      \<longrightarrow> jacfun fn argnums False has_aux args kw = Inl InputDtypeError)
   \<and> (list_all (\<lambda>i. i < length args) (ensure_index_tuple argnums)
      \<and> dyn = PTuple (map ((!) args) (ensure_index_tuple argnums))
      \<and> tree_leaves dyn \<noteq> []
      \<and> list_all (check_input_dtype_jacfwd False) (tree_leaves dyn)
      \<and> py_call fn args kw = Some out
      \<and> (if has_aux then as_pair out = Some (y, aux) else y = out)
      \<and> z \<in> set (tree_leaves y) \<and> dtype_of z = Complex64
      \<longrightarrow> jacfun fn argnums False has_aux args kw = Inl OutputDtypeError)"
proof (intro conjI impI)
  assume a: "list_all (\<lambda>i. i < length args) (ensure_index_tuple argnums)
      \<and> i \<in> set (ensure_index_tuple argnums) \<and> x \<in> set (tree_leaves (args ! i))
      \<and> dtype_of x = Int32"
  then have "x \<in> set (tree_leaves (PTuple (map ((!) args) (ensure_index_tuple argnums))))"
    by auto
  moreover have "\<not> check_input_dtype_jacfwd False x"
    using a by (simp add: check_input_dtype_jacfwd_def)
  ultimately have "\<not> list_all (check_input_dtype_jacfwd False)
                 (tree_leaves (PTuple (map ((!) args) (ensure_index_tuple argnums))))"
    unfolding list_all_iff by blast
  with a show "jacfun fn argnums False has_aux args kw = Inl InputDtypeError"
    by (intro jacfun_input_error) simp_all
next
  assume a: "list_all (\<lambda>i. i < length args) (ensure_index_tuple argnums)
      \<and> dyn = PTuple (map ((!) args) (ensure_index_tuple argnums))
      \<and> tree_leaves dyn \<noteq> []
      \<and> list_all (check_input_dtype_jacfwd False) (tree_leaves dyn)
      \<and> py_call fn args kw = Some out
      \<and> (if has_aux then as_pair out = Some (y, aux) else y = out)
      \<and> z \<in> set (tree_leaves y) \<and> dtype_of z = Complex64"
  have "primal_dtype_to_tangent_dtype (dtype_of l) = dtype_of l"
    if "check_input_dtype_jacfwd False l" for l
    using that by (auto simp: check_input_dtype_jacfwd_def)
  with a have tdt: "\<forall>l\<in>set (tree_leaves dyn).
                    primal_dtype_to_tangent_dtype (dtype_of l) = dtype_of l"
    unfolding list_all_iff by blast
  have "\<not> check_output_dtype_jacfwd False z"
    using a by (simp add: check_output_dtype_jacfwd_def)
  with a have bad: "\<not> list_all (check_output_dtype_jacfwd False) (tree_leaves y)"
    unfolding list_all_iff by blast
  from a have js: "list_all (\<lambda>i. i < length args) (ensure_index_tuple argnums)"
    and dyn: "dyn = PTuple (map ((!) args) (ensure_index_tuple argnums))"
    and ne: "tree_leaves dyn \<noteq> []"
    and inp: "list_all (check_input_dtype_jacfwd False) (tree_leaves dyn)"
    and call: "py_call fn args kw = Some out"
    and prim: "if has_aux then as_pair out = Some (y, aux) else y = out"
    by blast+
  from jacfun_run[OF js dyn ne inp tdt call prim] bad
  show "jacfun fn argnums False has_aux args kw = Inl OutputDtypeError" by auto
qed

theorem dtype_rejection_witness:
  "jacfun g_fun (Index 0) False False [Leaf (Array Int32 [3] [0, 1, 2])] [] = Inl InputDtypeError
   \<and> py_call complex_fun [Leaf x012] [] = Some (Leaf (Array Complex64 [] [3]))
   \<and> jacfun complex_fun (Index 0) False False [Leaf x012] [] = Inl OutputDtypeError"
  using dtype_rejection[where args = "[Leaf (Array Int32 [3] [0, 1, 2])]" and argnums = "Index 0"
      and i = 0 and x = "Array Int32 [3] [0, 1, 2]" and fn = g_fun and has_aux = False
      and kw = "[]"]
    dtype_rejection[where args = "[Leaf x012]" and argnums = "Index 0"
      and dyn = "PTuple [Leaf x012]" and fn = complex_fun and has_aux = False and kw = "[]"
      and out = "Leaf (Array Complex64 [] [3])" and y = "Leaf (Array Complex64 [] [3])"
      and z = "Array Complex64 [] [3]"]
  by (simp add: complex_fun_def x012_def check_input_dtype_jacfwd_def)

section \<open>Reassembly\<close>

lemma block_of_concat:
  assumes "\<And>j. j < r \<Longrightarrow> length (f j) = n" "i < r"
  shows "take n (drop (i * n) (concat (map f [0..<r]))) = f i"
  using assms
proof (induction r)
  case 0
  then show ?case by simp
next
  case (Suc r)
  have len: "length (concat (map f [0..<r])) = r * n"
    using Suc.prems(1) by (intro length_concat_const) simp
  show ?case
  proof (cases "i < r")
    case True
    then have "i * n + n \<le> r * n"
      by (metis Suc_leI mult_Suc mult_le_mono1 add.commute)
    with Suc.IH[OF _ True] Suc.prems(1) len show ?thesis by simp
  next
    case False
    with Suc.prems(2) have "i = r" by simp
    with len Suc.prems(1) show ?thesis by simp
  qed
qed

lemma take_drop_append:
  "take n (drop b xs) @ take m (drop (b + n) xs) = take (n + m) (drop b xs)"
  by (simp add: take_add add.commute[of b n])

lemma rows_concat: "concat (map (\<lambda>i. take d (drop (i * d) xs)) [0..<r]) = take (r * d) xs"
proof (induction r)
  case 0
  then show ?case by simp
next
  case (Suc r)
  have "concat (map (\<lambda>i. take d (drop (i * d) xs)) [0..<Suc r])
          = take (r * d) xs @ take d (drop (r * d) xs)"
    using Suc by simp
  also have "\<dots> = take (r * d + d) xs" by (simp add: take_add)
  also have "r * d + d = Suc r * d" by simp
  finally show ?case .
qed

lemma split_part_block:
  assumes "prod_list pre * d \<le> length xs" "off + n \<le> d" "i < prod_list pre"
  shows "take n (drop (i * n) (split_part (prod_list pre) d off n xs))
           = take n (drop (i * d + off) xs)"
  unfolding split_part_def
proof (rule block_of_concat)
  show "i < prod_list pre" by fact
next
  fix j assume "j < prod_list pre"
  then have "Suc j * d \<le> prod_list pre * d"
    by (intro mult_le_mono1) simp
  with assms(1,2) have "j * d + off + n \<le> length xs" by simp
  then show "length (take n (drop (j * d + off) xs)) = n" by simp
qed

lemma row_of_parts:
  assumes "prod_list pre * d \<le> length xs" "off + sum_list (map np_size ls) \<le> d"
    and "i < prod_list pre"
  shows "concat (map (\<lambda>a. take (trailing_size pre a) (drop (i * trailing_size pre a) (arr_data a)))
                     (unravel_parts dt pre d xs off ls))
           = take (sum_list (map np_size ls)) (drop (i * d + off) xs)"
  using assms(2)
proof (induction ls arbitrary: off)
  case Nil
  then show ?case by simp
next
  case (Cons l ls)
  let ?n = "np_size l"
  have ts: "trailing_size pre (Array dt (pre @ np_shape l) ys) = ?n" for ys
    by (simp add: trailing_size_def np_size_def)
  from Cons.prems have "off + ?n \<le> d" and "(off + ?n) + sum_list (map np_size ls) \<le> d"
    by simp_all
  from split_part_block[OF assms(1) this(1) assms(3)] Cons.IH[OF this(2)]
  show ?case
    by (simp add: ts take_drop_append[of ?n "i * d + off", symmetric] add.assoc)
qed

lemma ravel_unravel_parts:
  assumes "length xs = prod_list pre * d" "d = sum_list (map np_size ls)"
  shows "ravel_trailing pre (unravel_parts dt pre d xs 0 ls) = xs"
proof -
  have "ravel_trailing pre (unravel_parts dt pre d xs 0 ls)
          = concat (map (\<lambda>i. take d (drop (i * d) xs)) [0..<prod_list pre])"
    unfolding ravel_trailing_def
    by (rule arg_cong[where f = concat], rule map_cong[OF refl])
       (use assms in \<open>simp add: row_of_parts[where off = 0, simplified]\<close>)
  also have "\<dots> = take (prod_list pre * d) xs" by (rule rows_concat)
  also have "\<dots> = xs" using assms(1) by simp
  finally show ?thesis .
qed

lemma length_unravel_parts [simp]: "length (unravel_parts dt pre d xs off ls) = length ls"
  by (induction ls arbitrary: off) simp_all

lemma unravel_structure:
  "tree_structure (unravel_array_into_pytree ex arr) = tree_structure ex
   \<and> tree_leaves (unravel_array_into_pytree ex arr)
       = unravel_parts (dtype_of arr) (butlast (np_shape arr)) (last (np_shape arr))
           (arr_data arr) 0 (tree_leaves ex)"
  unfolding unravel_array_into_pytree_def by (rule rebuild_structure) simp

lemma unravel_parts_shapes:
  "list_all2 (\<lambda>l b. np_shape b = pre @ np_shape l) ls (unravel_parts dt pre d xs off ls)"
  by (induction ls arbitrary: off) simp_all

lemma basis_dim_sizes:
  assumes "\<forall>l\<in>set (tree_leaves t). dtype_of l \<noteq> Float0"
  shows "basis_dim t = sum_list (map np_size (tree_leaves t))"
  unfolding basis_dim_def
  by (rule arg_cong[where f = sum_list], rule map_cong[OF refl]) (use assms in \<open>simp add: dof_def\<close>)

lemma concat_concat_map:
  "concat (concat (map (\<lambda>x. map g (h x)) xs)) = concat (map (\<lambda>x. concat (map g (h x))) xs)"
  by (induction xs) simp_all

lemma tree_leaves_bind:
  "tree_leaves (tree_bind t f) = concat (map (\<lambda>x. tree_leaves (f x)) (tree_leaves t))"
  by (induction t) (simp_all add: map_concat comp_def concat_concat_map cong: map_cong)

lemma tree_structure_bind:
  assumes "\<And>x. tree_structure (f x) = s"
  shows "tree_structure (tree_bind t f) = tree_bind (tree_structure t) (\<lambda>_. s)"
  using assms by (induction t) (simp_all add: comp_def)

lemma unravel_stacked:
  assumes "stacked_of d y a" "d = sum_list (map np_size (tree_leaves ex))"
  shows "list_all2 (\<lambda>l b. np_shape b = np_shape y @ np_shape l) (tree_leaves ex)
           (tree_leaves (unravel_array_into_pytree ex a))
         \<and> ravel_trailing (np_shape y) (tree_leaves (unravel_array_into_pytree ex a))
             = arr_data a"
proof -
  from assms(1) have sh: "butlast (np_shape a) = np_shape y" "last (np_shape a) = d"
    and len: "length (arr_data a) = prod_list (np_shape y) * d"
    by (simp_all add: stacked_of_def np_size_def)
  show ?thesis
    using unravel_parts_shapes[of "np_shape y" "tree_leaves ex" "dtype_of a" d "arr_data a" 0]
      ravel_unravel_parts[OF len assms(2), of "dtype_of a"]
    by (simp add: unravel_structure sh)
qed

lemma inexact_inputs:
  assumes "list_all (check_input_dtype_jacfwd False) ls"
  shows "list_all (check_input_dtype_jacfwd h) ls"
    and "\<forall>l\<in>set ls. primal_dtype_to_tangent_dtype (dtype_of l) = dtype_of l"
    and "\<forall>l\<in>set ls. dtype_of l \<noteq> Float0"
  using assms by (auto simp: list_all_iff check_input_dtype_jacfwd_def)

text \<open>
  C5. Let \<open>argnums\<close> select the single argument \<open>ex\<close>, any nested structure of inexact
  arrays holding at least one array, on which the function evaluates to an output that
  passes the output check. Then the call returns; the nesting of the jacobian is the
  output structure with the structure of \<open>ex\<close> in place of every leaf; the leaf for output
  leaf \<open>yk\<close> and input leaf \<open>l\<close> has shape \<open>shape(yk) + shape(l)\<close>; and flattening the
  trailing axes of the leaves for \<open>yk\<close> in canonical order (leaves in flattened order,
  row-major within a leaf) gives back, element for element, the raw stacked-tangent array
  that the batched driver returned for \<open>yk\<close>.
\<close>

theorem structure_preservation:
  assumes "i < length args" and "ex = args ! i" and "tree_leaves ex \<noteq> []"
    and "list_all (check_input_dtype_jacfwd False) (tree_leaves ex)"
    and "py_call fn args kw = Some out"
    and "if has_aux then as_pair out = Some (y, aux) else y = out"
    and "list_all (check_output_dtype_jacfwd h) (tree_leaves y)"
  shows "\<exists>fp jac.
           argnums_partial (wrap_init fn kw) (Index i) args = Inr (fp, PTuple [ex])
         \<and> vmap (\<lambda>t. jvp fp (PTuple [ex]) t has_aux) (std_basis (PTuple [ex]))
             = Inr (if has_aux then WithAux y jac aux else NoAux y jac)
         \<and> jacfun fn (Index i) h has_aux args kw
             = Inr (if has_aux
                    then ValueAuxJac y aux (tree_bind jac (unravel_array_into_pytree ex))
                    else ValueJac y (tree_bind jac (unravel_array_into_pytree ex)))
         \<and> tree_structure (tree_bind jac (unravel_array_into_pytree ex))
             = tree_bind (tree_structure y) (\<lambda>_. tree_structure ex)
         \<and> list_all2
              (\<lambda>yk a. list_all2 (\<lambda>l b. np_shape b = np_shape yk @ np_shape l) (tree_leaves ex)
                         (tree_leaves (unravel_array_into_pytree ex a))
                     \<and> ravel_trailing (np_shape yk) (tree_leaves (unravel_array_into_pytree ex a))
                         = arr_data a)
              (tree_leaves y) (tree_leaves jac)"
proof -
  let ?dyn = "PTuple [ex]"
  have js: "list_all (\<lambda>i. i < length args) (ensure_index_tuple (Index i))"
    using assms(1) by simp
  have dyn: "?dyn = PTuple (map ((!) args) (ensure_index_tuple (Index i)))"
    using assms(2) by simp
  have ne: "tree_leaves ?dyn \<noteq> []" using assms(3) by simp
  have lv: "tree_leaves ?dyn = tree_leaves ex" by simp
  note ii = inexact_inputs[OF assms(4)]
  have inp: "list_all (check_input_dtype_jacfwd h) (tree_leaves ?dyn)"
    and tdt: "\<forall>l\<in>set (tree_leaves ?dyn). primal_dtype_to_tangent_dtype (dtype_of l) = dtype_of l"
    unfolding lv by (rule ii(1), rule ii(2))
  have d: "basis_dim ?dyn = sum_list (map np_size (tree_leaves ex))"
    using basis_dim_sizes[of ?dyn] ii(3) by simp
  have ea: "example_args_of (Index i) ?dyn = ex" by simp
  from jacfun_run[OF js dyn ne inp tdt assms(5) assms(6)] obtain fp jac where
    ap: "argnums_partial (wrap_init fn kw) (Index i) args = Inr (fp, ?dyn)"
    and vm: "vmap (\<lambda>t. jvp fp ?dyn t has_aux) (std_basis ?dyn)
               = Inr (if has_aux then WithAux y jac aux else NoAux y jac)"
    and st: "tree_structure jac = tree_structure y"
    and l2: "list_all2 (stacked_of (basis_dim ?dyn)) (tree_leaves y) (tree_leaves jac)"
    and jf: "jacfun fn (Index i) h has_aux args kw =
               (if \<not> list_all (check_output_dtype_jacfwd h) (tree_leaves y)
                then Inl OutputDtypeError
                else Inr (if has_aux
                          then ValueAuxJac y aux (tree_bind jac
                                 (unravel_array_into_pytree (example_args_of (Index i) ?dyn)))
                          else ValueJac y (tree_bind jac
                                 (unravel_array_into_pytree (example_args_of (Index i) ?dyn)))))"
    by blast
  have jf': "jacfun fn (Index i) h has_aux args kw
             = Inr (if has_aux
                    then ValueAuxJac y aux (tree_bind jac (unravel_array_into_pytree ex))
                    else ValueJac y (tree_bind jac (unravel_array_into_pytree ex)))"
    using jf assms(7) unfolding ea by simp
  have sb: "tree_structure (tree_bind jac (unravel_array_into_pytree ex))
             = tree_bind (tree_structure y) (\<lambda>_. tree_structure ex)"
    using tree_structure_bind[of "unravel_array_into_pytree ex" "tree_structure ex" jac]
    by (simp add: unravel_structure st)
  have rt: "list_all2
              (\<lambda>yk a. list_all2 (\<lambda>l b. np_shape b = np_shape yk @ np_shape l) (tree_leaves ex)
                         (tree_leaves (unravel_array_into_pytree ex a))
                     \<and> ravel_trailing (np_shape yk) (tree_leaves (unravel_array_into_pytree ex a))
                         = arr_data a)
              (tree_leaves y) (tree_leaves jac)"
    by (rule list_all2_mono[OF l2]) (rule unravel_stacked[OF _ d])
  from ap vm jf' sb rt show ?thesis by blast
qed

lemma unravel_parts_empty:
  "unravel_parts dt pre d [] off ls = map (\<lambda>l. Array dt (pre @ np_shape l) []) ls"
  by (induction ls arbitrary: off) (simp_all add: split_part_def)

lemma stacked_of_zero:
  "stacked_of 0 y a \<longleftrightarrow> a = Array (primal_dtype_to_tangent_dtype (dtype_of y)) (np_shape y @ [0]) []"
  by (cases a) (auto simp: stacked_of_def)

lemma unstack_basis_zero:
  "list_all (\<lambda>b. unstack b = []) (basis_leaves 0 off ls)"
  by (induction ls arbitrary: off) (simp_all add: eye_block_def)

text \<open>
  C8 (as amended). When the differentiated arguments are inexact arrays, at least one of
  them, with no element in all (\<open>D = 0\<close>), and the function evaluates to an output that
  passes the output check, the call does not fail. The basis has no direction; the raw
  stacked jacobian of every output leaf \<open>yk\<close> is the empty array of shape
  \<open>shape(yk) + (0,)\<close>, so its trailing axis has size 0; and the returned leaf for input
  leaf \<open>l\<close> is the empty array of shape \<open>shape(yk) + shape(l)\<close>.
\<close>

theorem zero_directions:
  assumes "list_all (\<lambda>i. i < length args) (ensure_index_tuple argnums)"
    and "dyn = PTuple (map ((!) args) (ensure_index_tuple argnums))"
    and "tree_leaves dyn \<noteq> []"
    and "list_all (check_input_dtype_jacfwd False) (tree_leaves dyn)"
    and "basis_dim dyn = 0"
    and "py_call fn args kw = Some out"
    and "if has_aux then as_pair out = Some (y, aux) else y = out"
    and "list_all (check_output_dtype_jacfwd h) (tree_leaves y)"
    and "ex = example_args_of argnums dyn"
  shows "\<exists>jac.
           jacfun fn argnums h has_aux args kw
             = Inr (if has_aux
                    then ValueAuxJac y aux (tree_bind jac (unravel_array_into_pytree ex))
                    else ValueJac y (tree_bind jac (unravel_array_into_pytree ex)))
         \<and> list_all (\<lambda>b. unstack b = []) (tree_leaves (std_basis dyn))
         \<and> list_all2
              (\<lambda>yk a. a = Array (primal_dtype_to_tangent_dtype (dtype_of yk)) (np_shape yk @ [0]) []
                     \<and> tree_leaves (unravel_array_into_pytree ex a)
                         = map (\<lambda>l. Array (primal_dtype_to_tangent_dtype (dtype_of yk))
                                       (np_shape yk @ np_shape l) [])
                               (tree_leaves ex))
              (tree_leaves y) (tree_leaves jac)"
proof -
  note ii = inexact_inputs[OF assms(4)]
  from jacfun_run[OF assms(1) assms(2) assms(3) ii(1) ii(2) assms(6) assms(7), of h]
  obtain jac where
    l2: "list_all2 (stacked_of (basis_dim dyn)) (tree_leaves y) (tree_leaves jac)"
    and jf: "jacfun fn argnums h has_aux args kw =
               (if \<not> list_all (check_output_dtype_jacfwd h) (tree_leaves y)
                then Inl OutputDtypeError
                else Inr (if has_aux
                          then ValueAuxJac y aux (tree_bind jac
                                 (unravel_array_into_pytree (example_args_of argnums dyn)))
                          else ValueJac y (tree_bind jac
                                 (unravel_array_into_pytree (example_args_of argnums dyn)))))"
    by blast
  have jf': "jacfun fn argnums h has_aux args kw
             = Inr (if has_aux
                    then ValueAuxJac y aux (tree_bind jac (unravel_array_into_pytree ex))
                    else ValueJac y (tree_bind jac (unravel_array_into_pytree ex)))"
    using jf assms(8,9) by simp
  have bs: "list_all (\<lambda>b. unstack b = []) (tree_leaves (std_basis dyn))"
    using std_basis_structure[of dyn] assms(5) by (simp add: unstack_basis_zero)
  have "list_all2 (stacked_of 0) (tree_leaves y) (tree_leaves jac)"
    using l2 assms(5) by simp
  then have rt: "list_all2
              (\<lambda>yk a. a = Array (primal_dtype_to_tangent_dtype (dtype_of yk)) (np_shape yk @ [0]) []
                     \<and> tree_leaves (unravel_array_into_pytree ex a)
                         = map (\<lambda>l. Array (primal_dtype_to_tangent_dtype (dtype_of yk))
                                       (np_shape yk @ np_shape l) [])
                               (tree_leaves ex))
              (tree_leaves y) (tree_leaves jac)"
    by (rule list_all2_mono) (simp add: stacked_of_zero unravel_structure unravel_parts_empty)
  from jf' bs rt show ?thesis by blast
qed


lemma nested_run:
  "jacfun lin_fun (Index 0) False False [nested_arg] [] =
     Inr (ValueJac (Leaf (Array Float32 [] [17]))
            (PTuple [Leaf (Array Float32 [2] [1, 1]), Leaf (Array Float32 [1, 2] [2, 2])]))"
  by code_simp

lemma empty_run:
  "jacfun g_fun (Index 0) False False [empty_arg] [] =
     Inr (ValueJac (Leaf (Array Float32 [] [0])) (Leaf (Array Float32 [0] [])))"
  by code_simp

theorem zero_directions_witness:
  "basis_dim (PTuple [empty_arg]) = 0
   \<and> py_call g_fun [empty_arg] [] = Some (Leaf (Array Float32 [] [0]))
   \<and> (\<exists>jac. jacfun g_fun (Index 0) False False [empty_arg] []
               = Inr (ValueJac (Leaf (Array Float32 [] [0]))
                        (tree_bind jac (unravel_array_into_pytree empty_arg)))
           \<and> list_all (\<lambda>b. unstack b = []) (tree_leaves (std_basis (PTuple [empty_arg])))
           \<and> tree_leaves jac = [Array Float32 [0] []]
           \<and> tree_leaves (unravel_array_into_pytree empty_arg (Array Float32 [0] []))
               = [Array Float32 [0] []])"
proof -
  have h1: "list_all (\<lambda>i. i < length [empty_arg]) (ensure_index_tuple (Index 0))" by simp
  have h2: "PTuple [empty_arg] = PTuple (map ((!) [empty_arg]) (ensure_index_tuple (Index 0)))"
    by simp
  have h3: "tree_leaves (PTuple [empty_arg]) \<noteq> []" by (simp add: empty_arg_def)
  have h4: "list_all (check_input_dtype_jacfwd False) (tree_leaves (PTuple [empty_arg]))"
    by (simp add: empty_arg_def check_input_dtype_jacfwd_def)
  have h5: "basis_dim (PTuple [empty_arg]) = 0"
    by (simp add: basis_dim_def dof_def np_size_def empty_arg_def)
  have h6: "py_call g_fun [empty_arg] [] = Some (Leaf (Array Float32 [] [0]))"
    by (simp add: g_fun_def empty_arg_def)
  have h7: "if False then as_pair (Leaf (Array Float32 [] [0])) = Some (Leaf (Array Float32 [] [0]), Leaf (Array Float32 [] [0]))
            else Leaf (Array Float32 [] [0]) = Leaf (Array Float32 [] [0])"
    by simp
  have h8: "list_all (check_output_dtype_jacfwd False) (tree_leaves (Leaf (Array Float32 [] [0])))"
    by (simp add: check_output_dtype_jacfwd_def)
  have h9: "empty_arg = example_args_of (Index 0) (PTuple [empty_arg])" by simp
  from zero_directions[OF h1 h2 h3 h4 h5 h6 h7 h8 h9] h5 h6
  show ?thesis by (auto simp: list_all2_Cons1 empty_arg_def)
qed

theorem structure_preservation_witness:
  "py_call lin_fun [nested_arg] [] = Some (Leaf (Array Float32 [] [17]))
   \<and> jacfun lin_fun (Index 0) False False [nested_arg] [] =
       Inr (ValueJac (Leaf (Array Float32 [] [17]))
              (PTuple [Leaf (Array Float32 [2] [1, 1]), Leaf (Array Float32 [1, 2] [2, 2])]))
   \<and> (\<exists>fp jac.
           argnums_partial (wrap_init lin_fun []) (Index 0) [nested_arg]
             = Inr (fp, PTuple [nested_arg])
         \<and> vmap (\<lambda>t. jvp fp (PTuple [nested_arg]) t False) (std_basis (PTuple [nested_arg]))
             = Inr (NoAux (Leaf (Array Float32 [] [17])) jac)
         \<and> jacfun lin_fun (Index 0) False False [nested_arg] []
             = Inr (ValueJac (Leaf (Array Float32 [] [17]))
                      (tree_bind jac (unravel_array_into_pytree nested_arg)))
         \<and> tree_structure (tree_bind jac (unravel_array_into_pytree nested_arg))
             = tree_structure nested_arg
         \<and> list_all2
              (\<lambda>yk a. list_all2 (\<lambda>l b. np_shape b = np_shape yk @ np_shape l)
                         (tree_leaves nested_arg)
                         (tree_leaves (unravel_array_into_pytree nested_arg a))
                     \<and> ravel_trailing (np_shape yk)
                           (tree_leaves (unravel_array_into_pytree nested_arg a))
                         = arr_data a)
              [Array Float32 [] [17]] (tree_leaves jac))"
proof -
  have h1: "0 < length [nested_arg]" by simp
  have h2: "nested_arg = [nested_arg] ! 0" by simp
  have h3: "tree_leaves nested_arg \<noteq> []" by (simp add: nested_arg_def)
  have h4: "list_all (check_input_dtype_jacfwd False) (tree_leaves nested_arg)"
    by (simp add: nested_arg_def check_input_dtype_jacfwd_def)
  have h5: "py_call lin_fun [nested_arg] [] = Some (Leaf (Array Float32 [] [17]))"
    by (simp add: lin_fun_def nested_arg_def)
  have h6: "if False then as_pair (Leaf (Array Float32 [] [17]))
                            = Some (Leaf (Array Float32 [] [17]), Leaf (Array Float32 [] [17]))
            else Leaf (Array Float32 [] [17]) = Leaf (Array Float32 [] [17])"
    by simp
  have h7: "list_all (check_output_dtype_jacfwd False) (tree_leaves (Leaf (Array Float32 [] [17])))"
    by (simp add: check_output_dtype_jacfwd_def)
  from structure_preservation[OF h1 h2 h3 h4 h5 h6 h7] h5 nested_run
  show ?thesis by simp
qed

text \<open>
  C8 as stated fails in two ways. An argument that holds no array has \<open>D = 0\<close>, the
  function evaluates on it, and yet the call fails: the batched map finds no array to
  read the size of the mapped axis from. And for an input of shape \<open>(0, 3)\<close>, which has
  \<open>D = 0\<close> as well, the call returns a jacobian of shape \<open>(0, 3)\<close>: its trailing axis has
  size 3, not 0.
\<close>

theorem zero_directions_counterexample:
  "basis_dim (PTuple [no_leaf_arg]) = 0
   \<and> py_call const_fun [no_leaf_arg] [] = Some (Leaf (Array Float32 [] [1]))
   \<and> jacfun const_fun (Index 0) False False [no_leaf_arg] [] = Inl VmapAxisError
   \<and> basis_dim (PTuple [empty_matrix_arg]) = 0
   \<and> jacfun g_fun (Index 0) False False [empty_matrix_arg] [] =
       Inr (ValueJac (Leaf (Array Float32 [] [0])) (Leaf (Array Float32 [0, 3] [])))
   \<and> last (np_shape (Array Float32 [0, 3] [])) = 3"
proof -
  have "jacfun const_fun (Index 0) False False [no_leaf_arg] [] = Inl VmapAxisError"
    by code_simp
  moreover have "jacfun g_fun (Index 0) False False [empty_matrix_arg] [] =
       Inr (ValueJac (Leaf (Array Float32 [] [0])) (Leaf (Array Float32 [0, 3] [])))"
    by code_simp
  moreover have "basis_dim (PTuple [no_leaf_arg]) = 0"
    by (simp add: basis_dim_def no_leaf_arg_def)
  moreover have "basis_dim (PTuple [empty_matrix_arg]) = 0"
    by (simp add: basis_dim_def dof_def np_size_def empty_matrix_arg_def)
  moreover have "py_call const_fun [no_leaf_arg] [] = Some (Leaf (Array Float32 [] [1]))"
    by (simp add: const_fun_def)
  ultimately show ?thesis by simp
qed

end
